theory Spec2Isabelle
  imports Complex_Main
begin

section \<open>Python strings and values\<close>

text \<open>
  Strings are ASCII byte strings. \<open>py_lower\<close> is \<^verbatim>\<open>str.lower()\<close> on ASCII
  letters, \<open>py_in sub s\<close> is the substring test \<^verbatim>\<open>sub in s\<close>.
\<close>

definition lower_char :: "char \<Rightarrow> char" where
  "lower_char c =
     (let n = of_char c :: nat in if 65 \<le> n \<and> n \<le> 90 then char_of (n + 32) else c)"

definition py_lower :: "string \<Rightarrow> string" where
  "py_lower s = map lower_char s"

definition starts_with :: "string \<Rightarrow> string \<Rightarrow> bool" where
  "starts_with s sub = (take (length sub) s = sub)"

fun py_in :: "string \<Rightarrow> string \<Rightarrow> bool" where
  "py_in sub [] = (sub = [])"
| "py_in sub (c # cs) = (starts_with (c # cs) sub \<or> py_in sub cs)"

text \<open>
  Values that travel in argument bags and gateway results: JSON-like Python objects.
  The payload of a float is carried and never computed with.
\<close>

datatype pyval =
    PNone
  | PBool bool
  | PInt int
  | PFloat real
  | PStr string
  | PList "pyval list"
  | PDict "(string \<times> pyval) list"

type_synonym pydict = "(string \<times> pyval) list"

text \<open>\<^verbatim>\<open>bool(v)\<close>: the truth value Python gives an object in \<^verbatim>\<open>if v\<close>, \<^verbatim>\<open>not v\<close>.\<close>

fun truthy :: "pyval \<Rightarrow> bool" where
  "truthy PNone = False"
| "truthy (PBool b) = b"
| "truthy (PInt i) = (i \<noteq> 0)"
| "truthy (PFloat r) = (r \<noteq> 0)"
| "truthy (PStr s) = (s \<noteq> [])"
| "truthy (PList xs) = (xs \<noteq> [])"
| "truthy (PDict kvs) = (kvs \<noteq> [])"

text \<open>\<^verbatim>\<open>d.get(k)\<close> and \<^verbatim>\<open>d.get(k, default)\<close>.\<close>

definition dict_get :: "pydict \<Rightarrow> string \<Rightarrow> pyval" where
  "dict_get d k = (case map_of d k of None \<Rightarrow> PNone | Some v \<Rightarrow> v)"

definition dict_get_default :: "pydict \<Rightarrow> string \<Rightarrow> pyval \<Rightarrow> pyval" where
  "dict_get_default d k dflt = (case map_of d k of None \<Rightarrow> dflt | Some v \<Rightarrow> v)"

text \<open>Exceptions, with \<open>str_exn\<close> for \<^verbatim>\<open>str(e)\<close>.\<close>

datatype py_exn =
    KeyError string
  | NameError string
  | TypeError string
  | ValueError string
  | AttributeError string
  | OtherError string

definition quoted :: "string \<Rightarrow> string" where
  "quoted s = [CHR 0x27] @ s @ [CHR 0x27]"

fun str_exn :: "py_exn \<Rightarrow> string" where
  "str_exn (KeyError k) = quoted k"
| "str_exn (NameError m) = m"
| "str_exn (TypeError m) = m"
| "str_exn (ValueError m) = m"
| "str_exn (AttributeError m) = m"
| "str_exn (OtherError m) = m"

text \<open>\<^verbatim>\<open>d[k]\<close>: a missing key raises \<^verbatim>\<open>KeyError(k)\<close>.\<close>

definition dict_index :: "pydict \<Rightarrow> string \<Rightarrow> py_exn + pyval" where
  "dict_index d k = (case map_of d k of None \<Rightarrow> Inl (KeyError k) | Some v \<Rightarrow> Inr v)"

section \<open>Query classifier (mcp\_client/direct\_mcp\_client.py, process\_user\_query)\<close>

text \<open>
  The branch of \<^verbatim>\<open>process_user_query\<close> that picks the tool and its arguments.
  The tests run in the order of the source's \<^verbatim>\<open>if/elif\<close> chain.
\<close>

definition classify_query :: "string \<Rightarrow> string \<times> pydict" where
  "classify_query user_query =
     (let q = py_lower user_query in
      if py_in ''namespace'' q \<and> py_in ''list'' q then (''list_namespaces'', [])
      else if py_in ''pod'' q \<and> py_in ''list'' q then
        (let namespace =
           (if py_in ''namespace'' q then
              (if py_in ''production'' q then ''production''
               else if py_in ''development'' q then ''development''
               else ''default'')
            else ''default'')
         in (''list_pods'', [(''namespace'', PStr namespace)]))
      else if py_in ''connect'' q \<or> py_in ''cluster'' q then (''connect_cluster'', [])
      else if py_in ''ai'' q \<or> py_in ''llm'' q \<or> py_in ''help'' q
        then (''ask_llm'', [(''question'', PStr user_query)])
      else (''ask_llm'', [(''question'', PStr user_query)]))"

section \<open>Interaction log (add\_to\_history, \_show\_history)\<close>

record interaction =
  timestamp :: string
  user_query :: string
  response :: string
  tool_used :: string
  execution_time :: real





section \<open>LLM providers (old/llm\_integration.py)\<close>

datatype LLMProvider = GEMINI | OPENAI | CLAUDE | CUSTOM

fun provider_value :: "LLMProvider \<Rightarrow> string" where
  "provider_value GEMINI = ''gemini''"
| "provider_value OPENAI = ''openai''"
| "provider_value CLAUDE = ''claude''"
| "provider_value CUSTOM = ''custom''"

record LLMResponse =
  content :: string
  provider :: string
  model :: string
  tokens_used :: "int option"
  response_time :: "real option"
  error :: "string option"

record LLMConfig =
  cfg_provider :: LLMProvider
  api_key :: string
  cfg_model :: string
  base_url :: "string option"
  max_tokens :: "int option"
  temperature :: real
  timeout :: int

text \<open>
  What the vendor SDK or HTTP endpoint does with one request: it raises, or it answers.
  An answer carries the text read by the Gemini, OpenAI and Claude providers, the token
  count of \<^verbatim>\<open>response.usage\<close>, the string fields of the JSON object the custom
  endpoint returns, and the clock difference measured around the call.
\<close>

record sdk_reply =
  reply_text :: string
  reply_tokens :: "int option"
  reply_json :: "(string \<times> string) list"
  elapsed :: real

datatype sdk_outcome = Raises py_exn | Replies sdk_reply

text \<open>One outbound request: the provider asked and the prompt sent.\<close>

type_synonym network_call = "string \<times> string"

type_synonym sdk = "LLMConfig \<Rightarrow> string \<Rightarrow> sdk_outcome"

text \<open>\<^verbatim>\<open>f"{context}\n\n{prompt}" if context else prompt\<close>\<close>

definition full_prompt :: "string \<Rightarrow> string option \<Rightarrow> string" where
  "full_prompt prompt context =
     (case context of
        None \<Rightarrow> prompt
      | Some c \<Rightarrow> if c = [] then prompt else c @ [CHR 0x0A, CHR 0x0A] @ prompt)"

text \<open>The \<^verbatim>\<open>except Exception\<close> branch shared by the four providers.\<close>

definition error_response :: "LLMConfig \<Rightarrow> py_exn \<Rightarrow> LLMResponse" where
  "error_response cfg e =
     \<lparr>content = [], provider = provider_value (cfg_provider cfg), model = cfg_model cfg,
      tokens_used = None, response_time = None, error = Some (str_exn e)\<rparr>"

text \<open>
  \<^verbatim>\<open>generate_response\<close> of GeminiProvider, OpenAIProvider, ClaudeProvider and
  CustomLLMProvider, selected by the provider of the configuration. Each returns the
  response and the requests it sent.
\<close>

definition provider_generate_response ::
  "sdk \<Rightarrow> LLMConfig \<Rightarrow> string \<Rightarrow> string option \<Rightarrow> LLMResponse \<times> network_call list" where
  "provider_generate_response call cfg prompt context =
     (let p = full_prompt prompt context;
          sent = [(provider_value (cfg_provider cfg), p)] in
      case call cfg p of
        Raises e \<Rightarrow> (error_response cfg e, sent)
      | Replies r \<Rightarrow>
          (case cfg_provider cfg of
             GEMINI \<Rightarrow>
               (\<lparr>content = reply_text r, provider = provider_value GEMINI,
                 model = cfg_model cfg, tokens_used = None,
                 response_time = Some (elapsed r), error = None\<rparr>, sent)
           | OPENAI \<Rightarrow>
               (\<lparr>content = reply_text r, provider = provider_value OPENAI,
                 model = cfg_model cfg, tokens_used = reply_tokens r,
                 response_time = Some (elapsed r), error = None\<rparr>, sent)
           | CLAUDE \<Rightarrow>
               (\<lparr>content = reply_text r, provider = provider_value CLAUDE,
                 model = cfg_model cfg, tokens_used = reply_tokens r,
                 response_time = Some (elapsed r), error = None\<rparr>, sent)
           | CUSTOM \<Rightarrow>
               (\<lparr>content =
                   (case map_of (reply_json r) ''response'' of
                      Some t \<Rightarrow> t
                    | None \<Rightarrow>
                        (case map_of (reply_json r) ''content'' of
                           Some t \<Rightarrow> t
                         | None \<Rightarrow> [])),
                 provider = provider_value CUSTOM, model = cfg_model cfg,
                 tokens_used = None, response_time = Some (elapsed r),
                 error = None\<rparr>, sent)))"

subsection \<open>LLMManager\<close>

record LLMManager =
  providers :: "(string \<times> LLMConfig) list"
  default_provider :: "string option"

text \<open>\<^verbatim>\<open>d[k] = v\<close> on an insertion-ordered dictionary.\<close>

fun dict_set :: "'k \<Rightarrow> 'v \<Rightarrow> ('k \<times> 'v) list \<Rightarrow> ('k \<times> 'v) list" where
  "dict_set k v [] = [(k, v)]"
| "dict_set k v ((k', v') # kvs) =
     (if k = k' then (k, v) # kvs else (k', v') # dict_set k v kvs)"

text \<open>
  The process environment, and \<^verbatim>\<open>os.getenv\<close> with and without a default.
\<close>

type_synonym environ = "(string \<times> string) list"

definition getenv :: "environ \<Rightarrow> string \<Rightarrow> string option" where
  "getenv env k = map_of env k"

definition getenv_default :: "environ \<Rightarrow> string \<Rightarrow> string \<Rightarrow> string" where
  "getenv_default env k dflt = (case map_of env k of None \<Rightarrow> dflt | Some v \<Rightarrow> v)"

text \<open>\<^verbatim>\<open>if key:\<close> on the result of \<^verbatim>\<open>os.getenv\<close>: set and not empty.\<close>

definition env_set :: "environ \<Rightarrow> string \<Rightarrow> bool" where
  "env_set env k = (case getenv env k of None \<Rightarrow> False | Some v \<Rightarrow> v \<noteq> [])"

text \<open>
  The builtins \<^verbatim>\<open>int\<close> and \<^verbatim>\<open>float\<close> applied to an environment string, and
  \<^verbatim>\<open>str\<close> applied to a value inside an f-string, are parameters: the first two
  return the number or raise \<^verbatim>\<open>ValueError\<close>.
\<close>

record builtins =
  py_int :: "string \<Rightarrow> py_exn + int"
  py_float :: "string \<Rightarrow> py_exn + real"
  py_str :: "pyval \<Rightarrow> string"

text \<open>
  The \<^verbatim>\<open>LLMConfig(...)\<close> call of one provider block: the keyword arguments are
  evaluated left to right, \<^verbatim>\<open>max_tokens\<close> before \<^verbatim>\<open>temperature\<close>.
\<close>

definition make_config ::
  "builtins \<Rightarrow> environ \<Rightarrow> LLMProvider \<Rightarrow> string \<Rightarrow> string \<Rightarrow> string option \<Rightarrow>
   string \<Rightarrow> string \<Rightarrow> py_exn + LLMConfig" where
  "make_config b env p key mdl url tokens_var temp_var =
     (case py_int b (getenv_default env tokens_var ''2048'') of
        Inl e \<Rightarrow> Inl e
      | Inr n \<Rightarrow>
          (case py_float b (getenv_default env temp_var ''0.7'') of
             Inl e \<Rightarrow> Inl e
           | Inr t \<Rightarrow>
               Inr \<lparr>cfg_provider = p, api_key = key, cfg_model = mdl, base_url = url,
                    max_tokens = Some n, temperature = t, timeout = 30\<rparr>))"

text \<open>The four blocks of \<^verbatim>\<open>setup_providers\<close>, in source order.\<close>

definition setup_gemini :: "builtins \<Rightarrow> environ \<Rightarrow> LLMManager \<Rightarrow> py_exn + LLMManager" where
  "setup_gemini b env m =
     (case getenv env ''GEMINI_API_KEY'' of
        None \<Rightarrow> Inr m
      | Some key \<Rightarrow>
          if key = [] then Inr m
          else
            (case make_config b env GEMINI key
                    (getenv_default env ''GEMINI_MODEL'' ''gemini-1.5-flash'') None
                    ''GEMINI_MAX_TOKENS'' ''GEMINI_TEMPERATURE'' of
               Inl e \<Rightarrow> Inl e
             | Inr cfg \<Rightarrow> Inr (m\<lparr>providers := dict_set ''gemini'' cfg (providers m),
                        default_provider := Some ''gemini''\<rparr>)))"

definition setup_openai :: "builtins \<Rightarrow> environ \<Rightarrow> LLMManager \<Rightarrow> py_exn + LLMManager" where
  "setup_openai b env m =
     (case getenv env ''OPENAI_API_KEY'' of
        None \<Rightarrow> Inr m
      | Some key \<Rightarrow>
          if key = [] then Inr m
          else
            (case make_config b env OPENAI key
                    (getenv_default env ''OPENAI_MODEL'' ''gpt-4'') (getenv env ''OPENAI_BASE_URL'')
                    ''OPENAI_MAX_TOKENS'' ''OPENAI_TEMPERATURE'' of
               Inl e \<Rightarrow> Inl e
             | Inr cfg \<Rightarrow> Inr (m\<lparr>providers := dict_set ''openai'' cfg (providers m)\<rparr>)))"

definition setup_claude :: "builtins \<Rightarrow> environ \<Rightarrow> LLMManager \<Rightarrow> py_exn + LLMManager" where
  "setup_claude b env m =
     (case getenv env ''ANTHROPIC_API_KEY'' of
        None \<Rightarrow> Inr m
      | Some key \<Rightarrow>
          if key = [] then Inr m
          else
            (case make_config b env CLAUDE key
                    (getenv_default env ''CLAUDE_MODEL'' ''claude-3-sonnet-20240229'') None
                    ''CLAUDE_MAX_TOKENS'' ''CLAUDE_TEMPERATURE'' of
               Inl e \<Rightarrow> Inl e
             | Inr cfg \<Rightarrow> Inr (m\<lparr>providers := dict_set ''claude'' cfg (providers m)\<rparr>)))"

definition setup_custom :: "builtins \<Rightarrow> environ \<Rightarrow> LLMManager \<Rightarrow> py_exn + LLMManager" where
  "setup_custom b env m =
     (case getenv env ''CUSTOM_LLM_API_KEY'' of
        None \<Rightarrow> Inr m
      | Some key \<Rightarrow>
          if key = [] \<or> \<not> env_set env ''CUSTOM_LLM_BASE_URL'' then Inr m
          else
            (case make_config b env CUSTOM key
                    (getenv_default env ''CUSTOM_LLM_MODEL'' ''custom'') (getenv env ''CUSTOM_LLM_BASE_URL'')
                    ''CUSTOM_LLM_MAX_TOKENS'' ''CUSTOM_LLM_TEMPERATURE'' of
               Inl e \<Rightarrow> Inl e
             | Inr cfg \<Rightarrow> Inr (m\<lparr>providers := dict_set ''custom'' cfg (providers m)\<rparr>)))"

text \<open>
  \<^verbatim>\<open>LLMManager.__init__\<close> followed by \<^verbatim>\<open>setup_providers\<close>. An exception of a
  block ends the setup: the source has no handler around it.
\<close>

definition setup_providers :: "builtins \<Rightarrow> environ \<Rightarrow> py_exn + LLMManager" where
  "setup_providers b env =
     (case setup_gemini b env \<lparr>providers = [], default_provider = None\<rparr> of
        Inl e \<Rightarrow> Inl e
      | Inr m1 \<Rightarrow>
          (case setup_openai b env m1 of
             Inl e \<Rightarrow> Inl e
           | Inr m2 \<Rightarrow>
               (case setup_claude b env m2 of
                  Inl e \<Rightarrow> Inl e
                | Inr m3 \<Rightarrow> setup_custom b env m3)))"

text \<open>
  Plain instances of the builtins, used where a concrete input is evaluated: they
  agree with \<^verbatim>\<open>int\<close> and \<^verbatim>\<open>float\<close> on unsigned decimal numerals and with
  \<^verbatim>\<open>str\<close> on strings, \<^verbatim>\<open>None\<close> and booleans.
\<close>

definition is_digit :: "char \<Rightarrow> bool" where
  "is_digit c = (48 \<le> (of_char c :: nat) \<and> (of_char c :: nat) \<le> 57)"

definition digits_value :: "string \<Rightarrow> nat" where
  "digits_value s = foldl (\<lambda>acc c. 10 * acc + ((of_char c :: nat) - 48)) 0 s"

definition decimal_int :: "string \<Rightarrow> py_exn + int" where
  "decimal_int s =
     (if s \<noteq> [] \<and> list_all is_digit s then Inr (int (digits_value s))
      else Inl (ValueError (''invalid literal for int() with base 10: '' @ s)))"

definition decimal_float :: "string \<Rightarrow> py_exn + real" where
  "decimal_float s =
     (let ip = takeWhile is_digit s; rest = dropWhile is_digit s in
      if ip \<noteq> [] \<and> rest = [] then Inr (real (digits_value ip))
      else if ip \<noteq> [] \<and> rest \<noteq> [] \<and> hd rest = CHR ''.'' \<and> tl rest \<noteq> []
              \<and> list_all is_digit (tl rest)
        then Inr (real (digits_value ip)
                  + real (digits_value (tl rest)) / 10 ^ length (tl rest))
      else Inl (ValueError (''could not convert string to float: '' @ s)))"

fun plain_str :: "pyval \<Rightarrow> string" where
  "plain_str (PStr s) = s"
| "plain_str PNone = ''None''"
| "plain_str (PBool b) = (if b then ''True'' else ''False'')"
| "plain_str v = ''<object>''"

definition decimal_builtins :: builtins where
  "decimal_builtins =
     \<lparr>py_int = decimal_int, py_float = decimal_float, py_str = plain_str\<rparr>"

text \<open>
  \<^verbatim>\<open>provider and provider in self.providers\<close>: the name selected by the first
  branch, if any. The argument is whatever the caller passed: a list or a dict is not
  hashable, and the membership test raises on it; a number is in no dictionary of names.
\<close>

definition explicit_provider :: "LLMManager \<Rightarrow> pyval \<Rightarrow> py_exn + string option" where
  "explicit_provider m p =
     (if \<not> truthy p then Inr None
      else case p of
             PStr s \<Rightarrow> Inr (if map_of (providers m) s \<noteq> None then Some s else None)
           | PList xs \<Rightarrow> Inl (TypeError (''unhashable type: '' @ quoted ''list''))
           | PDict kvs \<Rightarrow> Inl (TypeError (''unhashable type: '' @ quoted ''dict''))
           | _ \<Rightarrow> Inr None)"

definition no_provider_response :: LLMResponse where
  "no_provider_response =
     \<lparr>content = [], provider = ''none'', model = ''none'', tokens_used = None,
      response_time = None, error = Some ''No LLM provider available''\<rparr>"

text \<open>
  \<^verbatim>\<open>LLMManager.generate_response\<close>. \<^verbatim>\<open>self.providers[selected_provider]\<close> raises
  \<^verbatim>\<open>KeyError\<close> when the default names no entry of the dictionary.
\<close>

definition use_provider ::
  "LLMManager \<Rightarrow> sdk \<Rightarrow> string \<Rightarrow> string \<Rightarrow> string option \<Rightarrow>
   py_exn + (LLMResponse \<times> network_call list)" where
  "use_provider m call selected_provider prompt context =
     (case map_of (providers m) selected_provider of
        None \<Rightarrow> Inl (KeyError selected_provider)
      | Some cfg \<Rightarrow> Inr (provider_generate_response call cfg prompt context))"

definition generate_response ::
  "LLMManager \<Rightarrow> sdk \<Rightarrow> string \<Rightarrow> string option \<Rightarrow> pyval \<Rightarrow>
   py_exn + (LLMResponse \<times> network_call list)" where
  "generate_response m call prompt context p =
     (case explicit_provider m p of
        Inl e \<Rightarrow> Inl e
      | Inr (Some selected_provider) \<Rightarrow> use_provider m call selected_provider prompt context
      | Inr None \<Rightarrow>
          (case default_provider m of
             None \<Rightarrow> Inr (no_provider_response, [])
           | Some d \<Rightarrow>
               if d = [] then Inr (no_provider_response, [])
               else use_provider m call d prompt context))"

text \<open>The error field is set and not the empty string: \<^verbatim>\<open>if response.error\<close>.\<close>

definition nonempty_error :: "LLMResponse \<Rightarrow> bool" where
  "nonempty_error r = (case error r of None \<Rightarrow> False | Some e \<Rightarrow> e \<noteq> [])"


section \<open>Cluster gateway (openshift\_cluster.py)\<close>

text \<open>Decimal digits of a natural number, for \<^verbatim>\<open>{len(x)}\<close> inside an f-string.\<close>

fun show_nat :: "nat \<Rightarrow> string" where
  "show_nat n =
     (if n < 10 then [char_of (48 + n)]
      else show_nat (n div 10) @ [char_of (48 + n mod 10)])"

declare show_nat.simps [simp del]

record OpenShiftCluster =
  cluster_url :: pyval
  token :: pyval

text \<open>
  The Kubernetes and OpenShift client libraries are outside the repository.
  \<open>connect_api\<close> is what the body of \<^verbatim>\<open>_connect\<close> raises, if anything;
  \<open>resource_api\<close> is the outcome of the \<^verbatim>\<open>try\<close> body of a gateway method for a
  handle, a method name and its positional arguments: the value it returns or the
  exception raised inside it.
\<close>

record cluster_api =
  connect_api :: "pyval \<Rightarrow> pyval \<Rightarrow> py_exn option"
  resource_api :: "OpenShiftCluster \<Rightarrow> string \<Rightarrow> pyval list \<Rightarrow> py_exn + pyval"

text \<open>
  \<^verbatim>\<open>OpenShiftCluster(...)\<close> with the positional arguments of the call site.
  \<^verbatim>\<open>__init__(self, cluster_url, token)\<close> takes two; \<^verbatim>\<open>_connect\<close> re-raises
  what its body raises.
\<close>

fun new_OpenShiftCluster :: "cluster_api \<Rightarrow> pyval list \<Rightarrow> py_exn + OpenShiftCluster" where
  "new_OpenShiftCluster api [u, t] =
     (case connect_api api u t of
        Some e \<Rightarrow> Inl e
      | None \<Rightarrow> Inr \<lparr>cluster_url = u, token = t\<rparr>)"
| "new_OpenShiftCluster api (u # t # x # xs) =
     Inl (TypeError (''OpenShiftCluster.__init__() takes 3 positional arguments but ''
            @ show_nat (length (u # t # x # xs) + 1) @ '' were given''))"
| "new_OpenShiftCluster api args =
     Inl (TypeError ''OpenShiftCluster.__init__() missing required positional arguments'')"

text \<open>
  A method call on the handle. Every method of the class wraps its body in
  \<^verbatim>\<open>try ... except Exception\<close> and returns a fallback value; a name the class does
  not define raises \<^verbatim>\<open>AttributeError\<close>.
\<close>

definition list_methods :: "string list" where
  "list_methods =
     [''list_namespaces'', ''list_applications'', ''list_pods'', ''list_services'',
      ''list_routes'', ''list_configmaps'', ''list_secrets'']"

definition info_methods :: "string list" where
  "info_methods =
     [''describe_resource'', ''get_namespace_info'', ''get_cluster_health'',
      ''get_resource_usage'']"

definition action_methods :: "string list" where
  "action_methods = [''scale_deployment'', ''restart_deployment'']"

definition cluster_method ::
  "cluster_api \<Rightarrow> OpenShiftCluster \<Rightarrow> string \<Rightarrow> pyval list \<Rightarrow> py_exn + pyval" where
  "cluster_method api c meth args =
     (if meth \<in> set list_methods then
        (case resource_api api c meth args of
           Inl e \<Rightarrow> Inr (PList [])
         | Inr v \<Rightarrow> Inr v)
      else if meth = ''get_pod_logs'' then
        (case resource_api api c meth args of
           Inl e \<Rightarrow> Inr (PStr (''Error retrieving logs: '' @ str_exn e))
         | Inr v \<Rightarrow> Inr v)
      else if meth \<in> set info_methods then
        (case resource_api api c meth args of
           Inl e \<Rightarrow> Inr (PDict [(''error'', PStr (str_exn e))])
         | Inr v \<Rightarrow> Inr v)
      else if meth \<in> set action_methods then
        (case resource_api api c meth args of
           Inl e \<Rightarrow> Inr (PDict [(''success'', PBool False), (''error'', PStr (str_exn e))])
         | Inr v \<Rightarrow> Inr v)
      else Inl (AttributeError
             (quoted ''OpenShiftCluster'' @ '' object has no attribute '' @ quoted meth)))"

section \<open>Server state and the outside world\<close>

text \<open>
  The global \<^verbatim>\<open>cluster\<close> of a server module, with a record of the gateway methods
  called and of the LLM requests sent.
\<close>

record server_state =
  cluster :: "OpenShiftCluster option"
  gateway_calls :: "(string \<times> pyval list) list"
  llm_requests :: "network_call list"

text \<open>
  What a server run depends on: the builtins, the cluster client library, the LLM
  vendors (requests and connection probes), the global \<^verbatim>\<open>llm_manager\<close>, and
  \<open>report\<close>, the text a branch of the base server builds from a gateway value by
  looping over its records (it raises when a record lacks a field).
\<close>

record world =
  builtin :: builtins
  k8s :: cluster_api
  llm :: sdk
  llm_probe :: "LLMConfig \<Rightarrow> bool"
  manager :: LLMManager
  report :: "string \<Rightarrow> pydict \<Rightarrow> pyval \<Rightarrow> py_exn + string"

definition call_cluster ::
  "world \<Rightarrow> OpenShiftCluster \<Rightarrow> string \<Rightarrow> pyval list \<Rightarrow> server_state \<Rightarrow>
   (py_exn + pyval) \<times> server_state" where
  "call_cluster w c meth args st =
     (cluster_method (k8s w) c meth args,
      st\<lparr>gateway_calls := gateway_calls st @ [(meth, args)]\<rparr>)"

section \<open>The LLM-enabled server (old/openshift\_mcp\_server\_with\_llm.py)\<close>

type_synonym handler_result = "(py_exn + pydict) \<times> server_state"

definition error_dict :: "string \<Rightarrow> pydict" where
  "error_dict msg = [(''error'', PStr msg)]"

definition not_connected :: pydict where
  "not_connected = error_dict ''Not connected to cluster. Use connect_cluster first.''"

definition handle_connect_cluster :: "world \<Rightarrow> pydict \<Rightarrow> server_state \<Rightarrow> handler_result" where
  "handle_connect_cluster w arguments st =
     (let url = dict_get arguments ''cluster_url'';
          tok = dict_get arguments ''token'';
          verify_ssl = dict_get_default arguments ''verify_ssl'' (PBool True) in
      if \<not> truthy url \<or> \<not> truthy tok
        then (Inr (error_dict ''cluster_url and token are required''), st)
      else
        (case new_OpenShiftCluster (k8s w) [url, tok, verify_ssl] of
           Inl e \<Rightarrow> (Inl e, st)
         | Inr c \<Rightarrow>
             (Inr [(''message'',
                    PStr (''Successfully connected to cluster: '' @ py_str (builtin w) url))],
              st\<lparr>cluster := Some c\<rparr>)))"

definition handle_list_namespaces :: "world \<Rightarrow> server_state \<Rightarrow> handler_result" where
  "handle_list_namespaces w st =
     (case cluster st of
        None \<Rightarrow> (Inr not_connected, st)
      | Some c \<Rightarrow>
          (case call_cluster w c ''list_namespaces'' [] st of
             (Inl e, st') \<Rightarrow> (Inl e, st')
           | (Inr v, st') \<Rightarrow> (Inr [(''namespaces'', v)], st')))"

text \<open>
  The handlers of \<^verbatim>\<open>list_applications\<close>, \<^verbatim>\<open>list_pods\<close>, \<^verbatim>\<open>list_services\<close>,
  \<^verbatim>\<open>list_routes\<close>, \<^verbatim>\<open>list_configmaps\<close>, \<^verbatim>\<open>list_secrets\<close> and
  \<^verbatim>\<open>get_resource_usage\<close> have one body, up to the gateway method and the key of the
  result.
\<close>

definition handle_namespaced ::
  "string \<Rightarrow> string \<Rightarrow> world \<Rightarrow> pydict \<Rightarrow> server_state \<Rightarrow> handler_result" where
  "handle_namespaced meth key w arguments st =
     (case cluster st of
        None \<Rightarrow> (Inr not_connected, st)
      | Some c \<Rightarrow>
          (let namespace = dict_get arguments ''namespace'' in
           if \<not> truthy namespace then (Inr (error_dict ''namespace is required''), st)
           else
             (case call_cluster w c meth [namespace] st of
                (Inl e, st') \<Rightarrow> (Inl e, st')
              | (Inr v, st') \<Rightarrow> (Inr [(key, v)], st'))))"

definition handle_list_applications :: "world \<Rightarrow> pydict \<Rightarrow> server_state \<Rightarrow> handler_result" where
  "handle_list_applications = handle_namespaced ''list_applications'' ''applications''"

definition handle_list_pods :: "world \<Rightarrow> pydict \<Rightarrow> server_state \<Rightarrow> handler_result" where
  "handle_list_pods = handle_namespaced ''list_pods'' ''pods''"

definition handle_list_services :: "world \<Rightarrow> pydict \<Rightarrow> server_state \<Rightarrow> handler_result" where
  "handle_list_services = handle_namespaced ''list_services'' ''services''"

definition handle_list_routes :: "world \<Rightarrow> pydict \<Rightarrow> server_state \<Rightarrow> handler_result" where
  "handle_list_routes = handle_namespaced ''list_routes'' ''routes''"

definition handle_list_configmaps :: "world \<Rightarrow> pydict \<Rightarrow> server_state \<Rightarrow> handler_result" where
  "handle_list_configmaps = handle_namespaced ''list_configmaps'' ''configmaps''"

definition handle_list_secrets :: "world \<Rightarrow> pydict \<Rightarrow> server_state \<Rightarrow> handler_result" where
  "handle_list_secrets = handle_namespaced ''list_secrets'' ''secrets''"

definition handle_get_resource_usage :: "world \<Rightarrow> pydict \<Rightarrow> server_state \<Rightarrow> handler_result" where
  "handle_get_resource_usage = handle_namespaced ''get_resource_usage'' ''resource_usage''"

definition handle_get_pod_logs :: "world \<Rightarrow> pydict \<Rightarrow> server_state \<Rightarrow> handler_result" where
  "handle_get_pod_logs w arguments st =
     (case cluster st of
        None \<Rightarrow> (Inr not_connected, st)
      | Some c \<Rightarrow>
          (let namespace = dict_get arguments ''namespace'';
               pod_name = dict_get arguments ''pod_name'';
               tail_lines = dict_get_default arguments ''tail_lines'' (PInt 100) in
           if \<not> truthy namespace \<or> \<not> truthy pod_name
             then (Inr (error_dict ''namespace and pod_name are required''), st)
           else
             (case call_cluster w c ''get_pod_logs'' [namespace, pod_name, tail_lines] st of
                (Inl e, st') \<Rightarrow> (Inl e, st')
              | (Inr v, st') \<Rightarrow> (Inr [(''logs'', v)], st'))))"

definition handle_scale_deployment :: "world \<Rightarrow> pydict \<Rightarrow> server_state \<Rightarrow> handler_result" where
  "handle_scale_deployment w arguments st =
     (case cluster st of
        None \<Rightarrow> (Inr not_connected, st)
      | Some c \<Rightarrow>
          (let namespace = dict_get arguments ''namespace'';
               deployment_name = dict_get arguments ''deployment_name'';
               replicas = dict_get arguments ''replicas'' in
           if \<not> truthy namespace \<or> \<not> truthy deployment_name \<or> replicas = PNone
             then (Inr (error_dict ''namespace, deployment_name, and replicas are required''),
                   st)
           else
             (case call_cluster w c ''scale_deployment''
                     [namespace, deployment_name, replicas] st of
                (Inl e, st') \<Rightarrow> (Inl e, st')
              | (Inr v, st') \<Rightarrow> (Inr [(''result'', v)], st'))))"

definition handle_delete_pod :: "world \<Rightarrow> pydict \<Rightarrow> server_state \<Rightarrow> handler_result" where
  "handle_delete_pod w arguments st =
     (case cluster st of
        None \<Rightarrow> (Inr not_connected, st)
      | Some c \<Rightarrow>
          (let namespace = dict_get arguments ''namespace'';
               pod_name = dict_get arguments ''pod_name'' in
           if \<not> truthy namespace \<or> \<not> truthy pod_name
             then (Inr (error_dict ''namespace and pod_name are required''), st)
           else
             (case call_cluster w c ''delete_pod'' [namespace, pod_name] st of
                (Inl e, st') \<Rightarrow> (Inl e, st')
              | (Inr v, st') \<Rightarrow> (Inr [(''result'', v)], st'))))"

definition handle_create_namespace :: "world \<Rightarrow> pydict \<Rightarrow> server_state \<Rightarrow> handler_result" where
  "handle_create_namespace w arguments st =
     (case cluster st of
        None \<Rightarrow> (Inr not_connected, st)
      | Some c \<Rightarrow>
          (let name = dict_get arguments ''name'';
               labels = dict_get_default arguments ''labels'' (PDict []) in
           if \<not> truthy name then (Inr (error_dict ''name is required''), st)
           else
             (case call_cluster w c ''create_namespace'' [name, labels] st of
                (Inl e, st') \<Rightarrow> (Inl e, st')
              | (Inr v, st') \<Rightarrow> (Inr [(''result'', v)], st'))))"

definition handle_delete_namespace :: "world \<Rightarrow> pydict \<Rightarrow> server_state \<Rightarrow> handler_result" where
  "handle_delete_namespace w arguments st =
     (case cluster st of
        None \<Rightarrow> (Inr not_connected, st)
      | Some c \<Rightarrow>
          (let name = dict_get arguments ''name'' in
           if \<not> truthy name then (Inr (error_dict ''name is required''), st)
           else
             (case call_cluster w c ''delete_namespace'' [name] st of
                (Inl e, st') \<Rightarrow> (Inl e, st')
              | (Inr v, st') \<Rightarrow> (Inr [(''result'', v)], st'))))"


subsection \<open>LLM tool handlers\<close>

definition nl :: string where
  "nl = [CHR 0x0A]"

text \<open>
  \<^verbatim>\<open>llm_manager.generate_response(prompt, context, provider)\<close> from a handler: the
  requests sent are added to the record. The manager receives the context when it is
  truthy; a prompt or context that is not a string reaches the vendor as \<^verbatim>\<open>str\<close>
  renders it.
\<close>

definition llm_generate ::
  "world \<Rightarrow> string \<Rightarrow> string \<Rightarrow> pyval \<Rightarrow> server_state \<Rightarrow>
   (py_exn + LLMResponse) \<times> server_state" where
  "llm_generate w prompt context p st =
     (case generate_response (manager w) (llm w) prompt
             (if context = [] then None else Some context) p of
        Inl e \<Rightarrow> (Inl e, st)
      | Inr (r, sent) \<Rightarrow> (Inr r, st\<lparr>llm_requests := llm_requests st @ sent\<rparr>))"

definition opt_float :: "real option \<Rightarrow> pyval" where
  "opt_float x = (case x of None \<Rightarrow> PNone | Some r \<Rightarrow> PFloat r)"

definition opt_int :: "int option \<Rightarrow> pyval" where
  "opt_int x = (case x of None \<Rightarrow> PNone | Some i \<Rightarrow> PInt i)"

definition opt_string :: "string option \<Rightarrow> pyval" where
  "opt_string x = (case x of None \<Rightarrow> PNone | Some s \<Rightarrow> PStr s)"

text \<open>The text of \<^verbatim>\<open>response.error\<close> when it is set.\<close>

definition error_text :: "LLMResponse \<Rightarrow> string" where
  "error_text r = (case error r of None \<Rightarrow> [] | Some e \<Rightarrow> e)"

text \<open>\<^verbatim>\<open>str\<close> of a truthy value, the empty string for a falsy one.\<close>

definition text_of :: "world \<Rightarrow> pyval \<Rightarrow> string" where
  "text_of w v = (if truthy v then py_str (builtin w) v else [])"

definition handle_ask_llm :: "world \<Rightarrow> pydict \<Rightarrow> server_state \<Rightarrow> handler_result" where
  "handle_ask_llm w arguments st =
     (let question = dict_get arguments ''question'';
          context0 = dict_get_default arguments ''context'' (PStr []);
          p = dict_get arguments ''provider'' in
      if \<not> truthy question then (Inr (error_dict ''question is required''), st)
      else
        (let context =
           (case cluster st of
              None \<Rightarrow> text_of w context0
            | Some c \<Rightarrow>
                (let cluster_context =
                   ''Connected to OpenShift cluster: '' @ py_str (builtin w) (cluster_url c)
                 in if truthy context0
                    then cluster_context @ nl @ nl @ py_str (builtin w) context0
                    else cluster_context))
         in case llm_generate w (py_str (builtin w) question) context p st of
              (Inl e, st') \<Rightarrow> (Inl e, st')
            | (Inr r, st') \<Rightarrow>
                if nonempty_error r
                  then (Inr (error_dict (''LLM error: '' @ error_text r)), st')
                else
                  (Inr [(''response'', PStr (content r)),
                        (''provider'', PStr (provider r)),
                        (''model'', PStr (model r)),
                        (''response_time'', opt_float (response_time r)),
                        (''tokens_used'', opt_int (tokens_used r))], st')))"

definition handle_get_llm_providers :: "world \<Rightarrow> server_state \<Rightarrow> handler_result" where
  "handle_get_llm_providers w st =
     (let names = map fst (providers (manager w)) in
      (Inr [(''available_providers'', PList (map PStr names)),
            (''default_provider'', opt_string (default_provider (manager w))),
            (''total_providers'', PInt (int (length names)))], st))"

text \<open>
  \<^verbatim>\<open>test_connection\<close> of a provider catches every exception and answers a boolean;
  the probe it sends is recorded with the provider name.
\<close>

definition probe_all ::
  "world \<Rightarrow> (string \<times> LLMConfig) list \<Rightarrow> pydict" where
  "probe_all w ps = map (\<lambda>(name, cfg). (name, PBool (llm_probe w cfg))) ps"

definition handle_test_llm_connection :: "world \<Rightarrow> pydict \<Rightarrow> server_state \<Rightarrow> handler_result" where
  "handle_test_llm_connection w arguments st =
     (let p = dict_get arguments ''provider'' in
      if truthy p then
        (case explicit_provider (manager w) p of
           Inl e \<Rightarrow> (Inl e, st)
         | Inr (Some s) \<Rightarrow>
             (case map_of (providers (manager w)) s of
                None \<Rightarrow> (Inl (KeyError s), st)
              | Some cfg \<Rightarrow>
                  (Inr [(s, PBool (llm_probe w cfg))],
                   st\<lparr>llm_requests := llm_requests st @ [(s, ''test_connection'')]\<rparr>))
         | Inr None \<Rightarrow>
             (Inr (error_dict (''Provider '' @ quoted (py_str (builtin w) p) @ '' not found'')),
              st))
      else
        (Inr [(''connection_results'', PDict (probe_all w (providers (manager w))))],
         st\<lparr>llm_requests := llm_requests st
               @ map (\<lambda>(name, cfg). (name, ''test_connection'')) (providers (manager w))\<rparr>))"

text \<open>\<^verbatim>\<open>len(v)\<close>, \<^verbatim>\<open>v[k]\<close> for a string key, and \<^verbatim>\<open>k in v\<close>.\<close>

fun py_len :: "pyval \<Rightarrow> py_exn + nat" where
  "py_len (PStr s) = Inr (length s)"
| "py_len (PList xs) = Inr (length xs)"
| "py_len (PDict kvs) = Inr (length kvs)"
| "py_len v = Inl (TypeError ''object has no len()'')"

fun py_index :: "pyval \<Rightarrow> string \<Rightarrow> py_exn + pyval" where
  "py_index (PDict kvs) k = dict_index kvs k"
| "py_index (PStr s) k = Inl (TypeError ''string indices must be integers'')"
| "py_index (PList xs) k = Inl (TypeError ''list indices must be integers or slices'')"
| "py_index v k = Inl (TypeError ''object is not subscriptable'')"

fun py_contains :: "pyval \<Rightarrow> string \<Rightarrow> py_exn + bool" where
  "py_contains (PDict kvs) k = Inr (map_of kvs k \<noteq> None)"
| "py_contains (PStr s) k = Inr (py_in k s)"
| "py_contains (PList xs) k = Inr (PStr k \<in> set xs)"
| "py_contains v k = Inl (TypeError ''argument is not iterable'')"

text \<open>\<^verbatim>\<open>[ns['name'] for ns in namespaces[:5]]\<close>\<close>

fun names_of :: "pyval list \<Rightarrow> py_exn + pyval list" where
  "names_of [] = Inr []"
| "names_of (ns # rest) =
     (case py_index ns ''name'' of
        Inl e \<Rightarrow> Inl e
      | Inr n \<Rightarrow> (case names_of rest of Inl e \<Rightarrow> Inl e | Inr ns' \<Rightarrow> Inr (n # ns')))"

fun first_five_names :: "pyval \<Rightarrow> py_exn + pyval" where
  "first_five_names (PList xs) =
     (case names_of (take 5 xs) of Inl e \<Rightarrow> Inl e | Inr ns \<Rightarrow> Inr (PList ns))"
| "first_five_names (PStr s) =
     (if s = [] then Inr (PList [])
      else Inl (TypeError ''string indices must be integers''))"
| "first_five_names v = Inl (TypeError ''unhashable type: slice'')"

text \<open>\<^verbatim>\<open>s.strip()\<close>\<close>

definition is_space :: "char \<Rightarrow> bool" where
  "is_space c = ((of_char c :: nat) \<in> {9, 10, 11, 12, 13, 32})"

definition py_strip :: "string \<Rightarrow> string" where
  "py_strip s = rev (dropWhile is_space (rev (dropWhile is_space s)))"

text \<open>
  The body of the \<^verbatim>\<open>try\<close> of \<^verbatim>\<open>_handle_intelligent_cluster_analysis\<close>, in steps:
  the cluster snapshot, then the LLM call.
\<close>

definition analysis_context ::
  "world \<Rightarrow> OpenShiftCluster \<Rightarrow> pyval \<Rightarrow> server_state \<Rightarrow> (py_exn + string) \<times> server_state" where
  "analysis_context w c namespace st =
     (case call_cluster w c ''list_namespaces'' [] st of
        (Inl e, st1) \<Rightarrow> (Inl e, st1)
      | (Inr namespaces, st1) \<Rightarrow>
          (case py_len namespaces of
             Inl e \<Rightarrow> (Inl e, st1)
           | Inr n \<Rightarrow>
               if truthy namespace then
                 (case call_cluster w c ''list_pods'' [namespace] st1 of
                    (Inl e, st2) \<Rightarrow> (Inl e, st2)
                  | (Inr pods, st2) \<Rightarrow>
                 (case call_cluster w c ''list_services'' [namespace] st2 of
                    (Inl e, st3) \<Rightarrow> (Inl e, st3)
                  | (Inr services, st3) \<Rightarrow>
                 (case call_cluster w c ''list_routes'' [namespace] st3 of
                    (Inl e, st4) \<Rightarrow> (Inl e, st4)
                  | (Inr routes, st4) \<Rightarrow>
                 (case py_len pods of
                    Inl e \<Rightarrow> (Inl e, st4)
                  | Inr np \<Rightarrow>
                 (case py_len services of
                    Inl e \<Rightarrow> (Inl e, st4)
                  | Inr nsv \<Rightarrow>
                 (case py_len routes of
                    Inl e \<Rightarrow> (Inl e, st4)
                  | Inr nr \<Rightarrow>
                      (Inr (nl @ ''Cluster Information:'' @ nl
                            @ ''- Total namespaces: '' @ show_nat n @ nl
                            @ ''- Current namespace: '' @ py_str (builtin w) namespace @ nl
                            @ ''- Pods in namespace: '' @ show_nat np @ nl
                            @ ''- Services in namespace: '' @ show_nat nsv @ nl
                            @ ''- Routes in namespace: '' @ show_nat nr @ nl), st4)))))))
               else
                 (case first_five_names namespaces of
                    Inl e \<Rightarrow> (Inl e, st1)
                  | Inr names \<Rightarrow>
                      (Inr (nl @ ''Cluster Information:'' @ nl
                            @ ''- Total namespaces: '' @ show_nat n @ nl
                            @ ''- Namespace names: '' @ py_str (builtin w) names @ nl), st1))))"

definition analysis_prompt :: "string \<Rightarrow> string" where
  "analysis_prompt context =
     nl @ ''Please analyze this OpenShift cluster and provide:'' @ nl
     @ ''1. Overall health assessment'' @ nl
     @ ''2. Key observations'' @ nl
     @ ''3. Recommendations for optimization'' @ nl
     @ ''4. Potential issues to watch for'' @ nl @ nl
     @ context @ nl"

definition analysis_body ::
  "world \<Rightarrow> OpenShiftCluster \<Rightarrow> pydict \<Rightarrow> server_state \<Rightarrow> handler_result" where
  "analysis_body w c arguments st =
     (let namespace = dict_get arguments ''namespace'';
          p = dict_get arguments ''provider'' in
      case analysis_context w c namespace st of
        (Inl e, st') \<Rightarrow> (Inl e, st')
      | (Inr context, st') \<Rightarrow>
          (case llm_generate w (analysis_prompt context) context p st' of
             (Inl e, st'') \<Rightarrow> (Inl e, st'')
           | (Inr r, st'') \<Rightarrow>
               if nonempty_error r
                 then (Inr (error_dict (''LLM analysis failed: '' @ error_text r)), st'')
               else
                 (Inr [(''analysis'', PStr (content r)),
                       (''provider'', PStr (provider r)),
                       (''model'', PStr (model r)),
                       (''cluster_info'', PStr (py_strip context)),
                       (''response_time'', opt_float (response_time r))], st'')))"

definition handle_intelligent_cluster_analysis ::
  "world \<Rightarrow> pydict \<Rightarrow> server_state \<Rightarrow> handler_result" where
  "handle_intelligent_cluster_analysis w arguments st =
     (case cluster st of
        None \<Rightarrow> (Inr not_connected, st)
      | Some c \<Rightarrow>
          (case analysis_body w c arguments st of
             (Inl e, st') \<Rightarrow>
               (Inr (error_dict (''Failed to gather cluster information: '' @ str_exn e)), st')
           | (Inr r, st') \<Rightarrow> (Inr r, st')))"

definition troubleshooting_prompt :: "string \<Rightarrow> string \<Rightarrow> string \<Rightarrow> string" where
  "troubleshooting_prompt issue errors context =
     nl @ ''I'' @ [CHR 0x27]
     @ ''m experiencing an OpenShift issue and need help troubleshooting:'' @ nl @ nl
     @ ''Issue: '' @ issue @ nl @ nl
     @ (if errors = [] then [] else ''Error messages/logs: '' @ errors) @ nl @ nl
     @ context @ nl @ nl
     @ ''Please provide:'' @ nl
     @ ''1. Possible causes of this issue'' @ nl
     @ ''2. Step-by-step troubleshooting steps'' @ nl
     @ ''3. Commands to run for diagnosis'' @ nl
     @ ''4. Prevention tips for the future'' @ nl
     @ ''5. When to contact support'' @ nl"

text \<open>
  The cluster context of \<^verbatim>\<open>_handle_get_troubleshooting_help\<close>: a bare
  \<^verbatim>\<open>except\<close> replaces it by a fixed sentence when the snapshot raises.
\<close>

definition troubleshooting_context :: "world \<Rightarrow> server_state \<Rightarrow> string \<times> server_state" where
  "troubleshooting_context w st =
     (case cluster st of
        None \<Rightarrow> ([], st)
      | Some c \<Rightarrow>
          (case call_cluster w c ''list_namespaces'' [] st of
             (Inl e, st') \<Rightarrow> (''Connected to OpenShift cluster.'', st')
           | (Inr namespaces, st') \<Rightarrow>
               (case py_len namespaces of
                  Inl e \<Rightarrow> (''Connected to OpenShift cluster.'', st')
                | Inr n \<Rightarrow>
                    (''Connected to OpenShift cluster with '' @ show_nat n @ '' namespaces.'',
                     st'))))"

definition handle_get_troubleshooting_help ::
  "world \<Rightarrow> pydict \<Rightarrow> server_state \<Rightarrow> handler_result" where
  "handle_get_troubleshooting_help w arguments st =
     (let issue_description = dict_get arguments ''issue_description'';
          error_messages = dict_get_default arguments ''error_messages'' (PStr []);
          p = dict_get arguments ''provider'' in
      if \<not> truthy issue_description
        then (Inr (error_dict ''issue_description is required''), st)
      else
        (case troubleshooting_context w st of
           (context, st1) \<Rightarrow>
             (case llm_generate w
                     (troubleshooting_prompt (py_str (builtin w) issue_description)
                        (text_of w error_messages) context) context p st1 of
                (Inl e, st2) \<Rightarrow> (Inl e, st2)
              | (Inr r, st2) \<Rightarrow>
                  if nonempty_error r
                    then (Inr (error_dict (''Troubleshooting help failed: '' @ error_text r)),
                          st2)
                  else
                    (Inr [(''troubleshooting_help'', PStr (content r)),
                          (''provider'', PStr (provider r)),
                          (''model'', PStr (model r)),
                          (''response_time'', opt_float (response_time r))], st2))))"

subsection \<open>call\_tool\<close>

text \<open>The body of the \<^verbatim>\<open>try\<close> of \<^verbatim>\<open>call_tool\<close>: the chain of name tests.\<close>

definition dispatch :: "world \<Rightarrow> string \<Rightarrow> pydict \<Rightarrow> server_state \<Rightarrow> handler_result" where
  "dispatch w name arguments st =
     (if name = ''connect_cluster'' then handle_connect_cluster w arguments st
      else if name = ''list_namespaces'' then handle_list_namespaces w st
      else if name = ''list_applications'' then handle_list_applications w arguments st
      else if name = ''list_pods'' then handle_list_pods w arguments st
      else if name = ''list_services'' then handle_list_services w arguments st
      else if name = ''list_routes'' then handle_list_routes w arguments st
      else if name = ''list_configmaps'' then handle_list_configmaps w arguments st
      else if name = ''list_secrets'' then handle_list_secrets w arguments st
      else if name = ''get_pod_logs'' then handle_get_pod_logs w arguments st
      else if name = ''get_resource_usage'' then handle_get_resource_usage w arguments st
      else if name = ''scale_deployment'' then handle_scale_deployment w arguments st
      else if name = ''delete_pod'' then handle_delete_pod w arguments st
      else if name = ''create_namespace'' then handle_create_namespace w arguments st
      else if name = ''delete_namespace'' then handle_delete_namespace w arguments st
      else if name = ''ask_llm'' then handle_ask_llm w arguments st
      else if name = ''get_llm_providers'' then handle_get_llm_providers w st
      else if name = ''test_llm_connection'' then handle_test_llm_connection w arguments st
      else if name = ''intelligent_cluster_analysis''
        then handle_intelligent_cluster_analysis w arguments st
      else if name = ''get_troubleshooting_help''
        then handle_get_troubleshooting_help w arguments st
      else (Inr (error_dict (''Unknown tool: '' @ name)), st))"

text \<open>
  \<^verbatim>\<open>call_tool\<close>: the \<^verbatim>\<open>except Exception\<close> clause turns what the body raises into
  \<^verbatim>\<open>{"error": str(e)}\<close>.
\<close>

definition call_tool :: "world \<Rightarrow> string \<Rightarrow> pydict \<Rightarrow> server_state \<Rightarrow> pydict \<times> server_state" where
  "call_tool w name arguments st =
     (case dispatch w name arguments st of
        (Inl e, st') \<Rightarrow> (error_dict (str_exn e), st')
      | (Inr r, st') \<Rightarrow> (r, st'))"

text \<open>A result is a failure when it carries the key \<^verbatim>\<open>error\<close>.\<close>

definition is_error :: "pydict \<Rightarrow> bool" where
  "is_error r = (map_of r ''error'' \<noteq> None)"


section \<open>The base server (openshift\_mcp\_server.py, handle\_call\_tool)\<close>

text \<open>
  A branch answers one text. The reports that loop over the records of a gateway value
  are the parameter \<open>report\<close> of the world; the guards, the argument lookups, the
  gateway calls and the fixed texts are as in the source.
\<close>

type_synonym text_result = "(py_exn + string) \<times> server_state"

definition not_connected_text :: string where
  "not_connected_text =
     ''Error: Not connected to a cluster. Please connect first using connect_cluster.''"

text \<open>The bytes the source file has in front of its error texts.\<close>

definition cross_mark :: string where
  "cross_mark = [CHR 0xC3, CHR 0xA2, CHR 0xC5, CHR 0x92]"

definition base_connect_cluster :: "world \<Rightarrow> pydict \<Rightarrow> server_state \<Rightarrow> text_result" where
  "base_connect_cluster w arguments st =
     (case dict_index arguments ''cluster_url'' of
        Inl e \<Rightarrow> (Inl e, st)
      | Inr url \<Rightarrow>
          (case dict_index arguments ''token'' of
             Inl e \<Rightarrow> (Inl e, st)
           | Inr tok \<Rightarrow>
               (case new_OpenShiftCluster (k8s w) [url, tok] of
                  Inl e \<Rightarrow> (Inl e, st)
                | Inr c \<Rightarrow>
                    (Inr (''Successfully connected to OpenShift cluster: ''
                          @ py_str (builtin w) url),
                     st\<lparr>cluster := Some c\<rparr>))))"

definition base_list_namespaces :: "world \<Rightarrow> pydict \<Rightarrow> server_state \<Rightarrow> text_result" where
  "base_list_namespaces w arguments st =
     (case cluster st of
        None \<Rightarrow> (Inr not_connected_text, st)
      | Some c \<Rightarrow>
          (case call_cluster w c ''list_namespaces'' [] st of
             (Inl e, st') \<Rightarrow> (Inl e, st')
           | (Inr v, st') \<Rightarrow>
               if truthy v then (report w ''list_namespaces'' arguments v, st')
               else (Inr ''No namespaces found or error occurred.'', st')))"

text \<open>
  The branches of \<^verbatim>\<open>list_applications\<close>, \<^verbatim>\<open>list_pods\<close>, \<^verbatim>\<open>list_services\<close>,
  \<^verbatim>\<open>list_routes\<close>, \<^verbatim>\<open>list_configmaps\<close> and \<^verbatim>\<open>list_secrets\<close>, up to the
  gateway method and the noun of the fallback text.
\<close>

definition base_list ::
  "string \<Rightarrow> string \<Rightarrow> world \<Rightarrow> pydict \<Rightarrow> server_state \<Rightarrow> text_result" where
  "base_list meth noun w arguments st =
     (case cluster st of
        None \<Rightarrow> (Inr not_connected_text, st)
      | Some c \<Rightarrow>
          (case dict_index arguments ''namespace'' of
             Inl e \<Rightarrow> (Inl e, st)
           | Inr namespace \<Rightarrow>
               (case call_cluster w c meth [namespace] st of
                  (Inl e, st') \<Rightarrow> (Inl e, st')
                | (Inr v, st') \<Rightarrow>
                    if truthy v then (report w meth arguments v, st')
                    else
                      (Inr (''No '' @ noun @ '' found in namespace ''
                            @ quoted (py_str (builtin w) namespace)
                            @ '' or error occurred.''), st'))))"

definition base_get_pod_logs :: "world \<Rightarrow> pydict \<Rightarrow> server_state \<Rightarrow> text_result" where
  "base_get_pod_logs w arguments st =
     (case cluster st of
        None \<Rightarrow> (Inr not_connected_text, st)
      | Some c \<Rightarrow>
          (case dict_index arguments ''namespace'' of
             Inl e \<Rightarrow> (Inl e, st)
           | Inr namespace \<Rightarrow>
               (case dict_index arguments ''pod_name'' of
                  Inl e \<Rightarrow> (Inl e, st)
                | Inr pod_name \<Rightarrow>
                    (let tail_lines = dict_get_default arguments ''tail_lines'' (PInt 100) in
                     case call_cluster w c ''get_pod_logs''
                            [namespace, pod_name, tail_lines] st of
                       (Inl e, st') \<Rightarrow> (Inl e, st')
                     | (Inr logs, st') \<Rightarrow>
                         (Inr (''**Logs for pod '' @ quoted (py_str (builtin w) pod_name)
                               @ '' in namespace '' @ quoted (py_str (builtin w) namespace)
                               @ '':**'' @ nl @ nl @ ''```'' @ nl
                               @ py_str (builtin w) logs @ nl @ ''```''), st')))))"

definition base_describe_resource :: "world \<Rightarrow> pydict \<Rightarrow> server_state \<Rightarrow> text_result" where
  "base_describe_resource w arguments st =
     (case cluster st of
        None \<Rightarrow> (Inr not_connected_text, st)
      | Some c \<Rightarrow>
          (case dict_index arguments ''namespace'' of
             Inl e \<Rightarrow> (Inl e, st)
           | Inr namespace \<Rightarrow>
               (case dict_index arguments ''resource_type'' of
                  Inl e \<Rightarrow> (Inl e, st)
                | Inr resource_type \<Rightarrow>
                    (case dict_index arguments ''resource_name'' of
                       Inl e \<Rightarrow> (Inl e, st)
                     | Inr resource_name \<Rightarrow>
                         (case call_cluster w c ''describe_resource''
                                 [namespace, resource_type, resource_name] st of
                            (Inl e, st') \<Rightarrow> (Inl e, st')
                          | (Inr v, st') \<Rightarrow>
                              (report w ''describe_resource'' arguments v, st'))))))"

text \<open>
  The branches that test \<^verbatim>\<open>'error' not in info\<close>: \<^verbatim>\<open>get_namespace_info\<close> and
  \<^verbatim>\<open>get_cluster_health\<close>.
\<close>

definition error_or_report ::
  "world \<Rightarrow> string \<Rightarrow> string \<Rightarrow> pydict \<Rightarrow> pyval \<Rightarrow> py_exn + string" where
  "error_or_report w name error_prefix arguments info =
     (case py_contains info ''error'' of
        Inl e \<Rightarrow> Inl e
      | Inr False \<Rightarrow> report w name arguments info
      | Inr True \<Rightarrow>
          (case py_index info ''error'' of
             Inl e \<Rightarrow> Inl e
           | Inr msg \<Rightarrow> Inr (error_prefix @ py_str (builtin w) msg)))"

definition base_get_namespace_info :: "world \<Rightarrow> pydict \<Rightarrow> server_state \<Rightarrow> text_result" where
  "base_get_namespace_info w arguments st =
     (case cluster st of
        None \<Rightarrow> (Inr not_connected_text, st)
      | Some c \<Rightarrow>
          (case dict_index arguments ''namespace'' of
             Inl e \<Rightarrow> (Inl e, st)
           | Inr namespace \<Rightarrow>
               (case call_cluster w c ''get_namespace_info'' [namespace] st of
                  (Inl e, st') \<Rightarrow> (Inl e, st')
                | (Inr info, st') \<Rightarrow>
                    (error_or_report w ''get_namespace_info''
                       ''Error getting namespace info: '' arguments info, st'))))"

definition base_get_cluster_health :: "world \<Rightarrow> pydict \<Rightarrow> server_state \<Rightarrow> text_result" where
  "base_get_cluster_health w arguments st =
     (case cluster st of
        None \<Rightarrow> (Inr not_connected_text, st)
      | Some c \<Rightarrow>
          (case call_cluster w c ''get_cluster_health'' [] st of
             (Inl e, st') \<Rightarrow> (Inl e, st')
           | (Inr info, st') \<Rightarrow>
               (error_or_report w ''get_cluster_health''
                  (cross_mark @ '' **Error getting cluster health**: '') arguments info,
                st')))"

text \<open>
  The branches that test \<^verbatim>\<open>result['success']\<close>: \<^verbatim>\<open>scale_deployment\<close> and
  \<^verbatim>\<open>restart_deployment\<close>.
\<close>

definition success_or_error ::
  "world \<Rightarrow> string \<Rightarrow> string \<Rightarrow> pydict \<Rightarrow> pyval \<Rightarrow> py_exn + string" where
  "success_or_error w name error_prefix arguments result =
     (case py_index result ''success'' of
        Inl e \<Rightarrow> Inl e
      | Inr ok \<Rightarrow>
          if truthy ok then report w name arguments result
          else
            (case py_index result ''error'' of
               Inl e \<Rightarrow> Inl e
             | Inr msg \<Rightarrow> Inr (error_prefix @ py_str (builtin w) msg)))"

definition base_scale_deployment :: "world \<Rightarrow> pydict \<Rightarrow> server_state \<Rightarrow> text_result" where
  "base_scale_deployment w arguments st =
     (case cluster st of
        None \<Rightarrow> (Inr not_connected_text, st)
      | Some c \<Rightarrow>
          (case dict_index arguments ''namespace'' of
             Inl e \<Rightarrow> (Inl e, st)
           | Inr namespace \<Rightarrow>
               (case dict_index arguments ''deployment_name'' of
                  Inl e \<Rightarrow> (Inl e, st)
                | Inr deployment_name \<Rightarrow>
                    (case dict_index arguments ''replicas'' of
                       Inl e \<Rightarrow> (Inl e, st)
                     | Inr replicas \<Rightarrow>
                         (case call_cluster w c ''scale_deployment''
                                 [namespace, deployment_name, replicas] st of
                            (Inl e, st') \<Rightarrow> (Inl e, st')
                          | (Inr result, st') \<Rightarrow>
                              (success_or_error w ''scale_deployment''
                                 (cross_mark @ '' **Error scaling deployment**: '')
                                 arguments result, st'))))))"

definition base_restart_deployment :: "world \<Rightarrow> pydict \<Rightarrow> server_state \<Rightarrow> text_result" where
  "base_restart_deployment w arguments st =
     (case cluster st of
        None \<Rightarrow> (Inr not_connected_text, st)
      | Some c \<Rightarrow>
          (case dict_index arguments ''namespace'' of
             Inl e \<Rightarrow> (Inl e, st)
           | Inr namespace \<Rightarrow>
               (case dict_index arguments ''deployment_name'' of
                  Inl e \<Rightarrow> (Inl e, st)
                | Inr deployment_name \<Rightarrow>
                    (case call_cluster w c ''restart_deployment''
                            [namespace, deployment_name] st of
                       (Inl e, st') \<Rightarrow> (Inl e, st')
                     | (Inr result, st') \<Rightarrow>
                         (success_or_error w ''restart_deployment''
                            (cross_mark @ '' **Error restarting deployment**: '')
                            arguments result, st')))))"

text \<open>
  The format specification \<^verbatim>\<open>:.2f\<close> applied to a value: numbers accept it, a string
  raises \<^verbatim>\<open>ValueError\<close>, any other object \<^verbatim>\<open>TypeError\<close>.
\<close>

fun format_2f :: "pyval \<Rightarrow> py_exn option" where
  "format_2f (PInt i) = None"
| "format_2f (PFloat r) = None"
| "format_2f (PBool b) = None"
| "format_2f (PStr s) = Some (ValueError ''Unknown format code f for object of type str'')"
| "format_2f v = Some (TypeError ''unsupported format string passed to __format__'')"

text \<open>
  The branch \<^verbatim>\<open>'error' not in usage_info\<close> of \<^verbatim>\<open>get_resource_usage\<close>. Its fourth
  statement evaluates \<^verbatim>\<open>self._format_memory(...)\<close>; \<^verbatim>\<open>handle_call_tool\<close> is a
  module-level function with the parameters \<^verbatim>\<open>name\<close> and \<^verbatim>\<open>arguments\<close>, no name
  \<^verbatim>\<open>self\<close> is bound in it or in the module, so the statement raises
  \<^verbatim>\<open>NameError\<close>. The statements after it never run.
\<close>

definition usage_report :: "world \<Rightarrow> pyval \<Rightarrow> pyval \<Rightarrow> py_exn + string" where
  "usage_report w namespace usage_info =
     (case py_index usage_info ''total_cpu_request'' of
        Inl e \<Rightarrow> Inl e
      | Inr cpu \<Rightarrow>
          (case format_2f cpu of
             Some e \<Rightarrow> Inl e
           | None \<Rightarrow> Inl (NameError (''name '' @ quoted ''self'' @ '' is not defined''))))"

definition base_get_resource_usage :: "world \<Rightarrow> pydict \<Rightarrow> server_state \<Rightarrow> text_result" where
  "base_get_resource_usage w arguments st =
     (case cluster st of
        None \<Rightarrow> (Inr not_connected_text, st)
      | Some c \<Rightarrow>
          (case dict_index arguments ''namespace'' of
             Inl e \<Rightarrow> (Inl e, st)
           | Inr namespace \<Rightarrow>
               (case call_cluster w c ''get_resource_usage'' [namespace] st of
                  (Inl e, st') \<Rightarrow> (Inl e, st')
                | (Inr usage_info, st') \<Rightarrow>
                    (case py_contains usage_info ''error'' of
                       Inl e \<Rightarrow> (Inl e, st')
                     | Inr False \<Rightarrow> (usage_report w namespace usage_info, st')
                     | Inr True \<Rightarrow>
                         (case py_index usage_info ''error'' of
                            Inl e \<Rightarrow> (Inl e, st')
                          | Inr msg \<Rightarrow>
                              (Inr (cross_mark @ '' **Error getting resource usage**: ''
                                    @ py_str (builtin w) msg), st'))))))"

text \<open>The body of the \<^verbatim>\<open>try\<close> of \<^verbatim>\<open>handle_call_tool\<close>.\<close>

definition base_dispatch :: "world \<Rightarrow> string \<Rightarrow> pydict \<Rightarrow> server_state \<Rightarrow> text_result" where
  "base_dispatch w name arguments st =
     (if name = ''connect_cluster'' then base_connect_cluster w arguments st
      else if name = ''list_namespaces'' then base_list_namespaces w arguments st
      else if name = ''list_applications''
        then base_list ''list_applications'' ''applications'' w arguments st
      else if name = ''list_pods'' then base_list ''list_pods'' ''pods'' w arguments st
      else if name = ''list_services''
        then base_list ''list_services'' ''services'' w arguments st
      else if name = ''list_routes'' then base_list ''list_routes'' ''routes'' w arguments st
      else if name = ''get_pod_logs'' then base_get_pod_logs w arguments st
      else if name = ''describe_resource'' then base_describe_resource w arguments st
      else if name = ''get_namespace_info'' then base_get_namespace_info w arguments st
      else if name = ''list_configmaps''
        then base_list ''list_configmaps'' ''configmaps'' w arguments st
      else if name = ''list_secrets'' then base_list ''list_secrets'' ''secrets'' w arguments st
      else if name = ''scale_deployment'' then base_scale_deployment w arguments st
      else if name = ''restart_deployment'' then base_restart_deployment w arguments st
      else if name = ''get_cluster_health'' then base_get_cluster_health w arguments st
      else if name = ''get_resource_usage'' then base_get_resource_usage w arguments st
      else (Inr (''Unknown tool: '' @ name), st))"

text \<open>
  \<^verbatim>\<open>handle_call_tool\<close>: the \<^verbatim>\<open>except Exception\<close> clause answers
  \<^verbatim>\<open>Error executing tool '{name}': {str(e)}\<close>.
\<close>

definition catch_all_text :: "string \<Rightarrow> py_exn \<Rightarrow> string" where
  "catch_all_text name e = ''Error executing tool '' @ quoted name @ '': '' @ str_exn e"

definition handle_call_tool ::
  "world \<Rightarrow> string \<Rightarrow> pydict \<Rightarrow> server_state \<Rightarrow> string \<times> server_state" where
  "handle_call_tool w name arguments st =
     (case base_dispatch w name arguments st of
        (Inl e, st') \<Rightarrow> (catch_all_text name e, st')
      | (Inr t, st') \<Rightarrow> (t, st'))"

section \<open>Tool tables and concrete worlds\<close>

text \<open>
  The cluster tools of the LLM-enabled server, and the tool names of its
  \<^verbatim>\<open>list_tools\<close> with the \<^verbatim>\<open>required\<close> list of each schema.
\<close>

definition cluster_tools :: "string list" where
  "cluster_tools =
     [''list_namespaces'', ''list_applications'', ''list_pods'', ''list_services'',
      ''list_routes'', ''list_configmaps'', ''list_secrets'', ''get_pod_logs'',
      ''get_resource_usage'', ''scale_deployment'', ''delete_pod'', ''create_namespace'',
      ''delete_namespace'']"

text \<open>The cluster tools of that list which the base server has as well.\<close>

definition base_cluster_tools :: "string list" where
  "base_cluster_tools =
     [''list_namespaces'', ''list_applications'', ''list_pods'', ''list_services'',
      ''list_routes'', ''list_configmaps'', ''list_secrets'', ''get_pod_logs'',
      ''get_resource_usage'', ''scale_deployment'']"

definition tool_specs :: "(string \<times> string list) list" where
  "tool_specs =
     [(''connect_cluster'', [''cluster_url'', ''token'']),
      (''list_namespaces'', []),
      (''list_applications'', [''namespace'']),
      (''list_pods'', [''namespace'']),
      (''list_services'', [''namespace'']),
      (''list_routes'', [''namespace'']),
      (''list_configmaps'', [''namespace'']),
      (''list_secrets'', [''namespace'']),
      (''get_pod_logs'', [''namespace'', ''pod_name'']),
      (''get_resource_usage'', [''namespace'']),
      (''scale_deployment'', [''namespace'', ''deployment_name'', ''replicas'']),
      (''delete_pod'', [''namespace'', ''pod_name'']),
      (''create_namespace'', [''name'']),
      (''delete_namespace'', [''name'']),
      (''ask_llm'', [''question'']),
      (''get_llm_providers'', []),
      (''test_llm_connection'', []),
      (''intelligent_cluster_analysis'', []),
      (''get_troubleshooting_help'', [''issue_description''])]"

definition required_args :: "string \<Rightarrow> string list" where
  "required_args name = (case map_of tool_specs name of None \<Rightarrow> [] | Some r \<Rightarrow> r)"

text \<open>The text each handler answers when a required argument is falsy or absent.\<close>

definition validation_message :: "string \<Rightarrow> string" where
  "validation_message name =
     (if name = ''connect_cluster'' then ''cluster_url and token are required''
      else if name = ''get_pod_logs'' \<or> name = ''delete_pod''
        then ''namespace and pod_name are required''
      else if name = ''scale_deployment''
        then ''namespace, deployment_name, and replicas are required''
      else if name = ''create_namespace'' \<or> name = ''delete_namespace''
        then ''name is required''
      else if name = ''ask_llm'' then ''question is required''
      else if name = ''get_troubleshooting_help'' then ''issue_description is required''
      else ''namespace is required'')"

text \<open>
  A world for concrete evaluation: a cluster library that connects and answers empty
  lists, vendors that are offline, and a manager with no provider.
\<close>

definition quiet_api :: cluster_api where
  "quiet_api =
     \<lparr>connect_api = (\<lambda>u t. None), resource_api = (\<lambda>c meth args. Inr (PList []))\<rparr>"

definition quiet_world :: world where
  "quiet_world =
     \<lparr>builtin = decimal_builtins, k8s = quiet_api,
      llm = (\<lambda>c q. Raises (OtherError ''offline'')),
      llm_probe = (\<lambda>c. False),
      manager = \<lparr>providers = [], default_provider = None\<rparr>,
      report = (\<lambda>name arguments v. Inr ''report'')\<rparr>"

definition initial_state :: server_state where
  "initial_state = \<lparr>cluster = None, gateway_calls = [], llm_requests = []\<rparr>"


text \<open>A state with a handle, as a successful connection leaves it.\<close>

definition connected_state :: server_state where
  "connected_state =
     initial_state\<lparr>cluster :=
       Some \<lparr>cluster_url = PStr ''https://api.example:6443'', token = PStr ''sha256~abc''\<rparr>\<rparr>"

text \<open>
  The value \<^verbatim>\<open>get_resource_usage\<close> builds for a namespace without pods, and a world
  whose cluster library answers it.
\<close>

definition empty_usage :: "pyval \<Rightarrow> pyval" where
  "empty_usage namespace =
     PDict [(''namespace'', namespace), (''pods'', PList []),
            (''total_cpu_request'', PInt 0), (''total_memory_request'', PInt 0),
            (''total_cpu_limit'', PInt 0), (''total_memory_limit'', PInt 0)]"

definition usage_world :: world where
  "usage_world =
     quiet_world\<lparr>k8s :=
       \<lparr>connect_api = (\<lambda>u t. None),
        resource_api =
          (\<lambda>c meth args. case args of [] \<Rightarrow> Inr (PList []) | ns # rest \<Rightarrow> Inr (empty_usage ns))\<rparr>\<rparr>"

section \<open>Properties of the classifier and the interaction log\<close>

text \<open>
  C1. The query "list pods in production namespace" contains both "namespace" and
  "list", so the first rule of the chain takes it: the classifier answers
  \<open>list_namespaces\<close> with no arguments, not \<open>list_pods\<close> with the production
  namespace.
\<close>

theorem classify_production_namespace:
  "classify_query ''list pods in production namespace'' = (''list_namespaces'', [])"
  by (simp add: classify_query_def py_lower_def lower_char_def starts_with_def)

text \<open>
  The namespace extraction of the second rule is never reached with the word
  "namespace" in the query: whenever \<open>list_pods\<close> is chosen, its namespace is
  \<open>default\<close>.
\<close>

lemma classify_list_pods_default:
  "fst (classify_query q) = ''list_pods'' \<Longrightarrow>
   snd (classify_query q) = [(''namespace'', PStr ''default'')]"
  by (auto simp add: classify_query_def Let_def split: if_splits)



section \<open>Properties of the LLM manager\<close>

lemma provider_error_content:
  "error (fst (provider_generate_response call cfg prompt context)) \<noteq> None \<Longrightarrow>
   content (fst (provider_generate_response call cfg prompt context)) = []"
  by (auto simp add: provider_generate_response_def Let_def error_response_def
      split: sdk_outcome.splits LLMProvider.splits)

lemma use_provider_error_content:
  assumes u: "use_provider m call s prompt context = Inr (r, sent)"
    and e: "error r \<noteq> None"
  shows "content r = []"
proof -
  from u obtain cfg where "provider_generate_response call cfg prompt context = (r, sent)"
    by (auto simp add: use_provider_def split: option.splits)
  then have "fst (provider_generate_response call cfg prompt context) = r"
    by simp
  with e provider_error_content [of call cfg prompt "context"] show ?thesis
    by auto
qed

text \<open>
  C7. A response with a non-empty error has empty content, whether it comes from one
  of the four providers or from the manager (a provider's response, or the response of
  the branch that finds no provider).
\<close>

theorem llm_response_error_content:
  "(nonempty_error (fst (provider_generate_response call cfg prompt context)) \<longrightarrow>
      content (fst (provider_generate_response call cfg prompt context)) = [])
   \<and> (\<forall>r sent. generate_response m call prompt context p = Inr (r, sent) \<longrightarrow>
         nonempty_error r \<longrightarrow> content r = [])"
proof (intro conjI allI impI)
  assume "nonempty_error (fst (provider_generate_response call cfg prompt context))"
  then have "error (fst (provider_generate_response call cfg prompt context)) \<noteq> None"
    by (auto simp add: nonempty_error_def split: option.splits)
  then show "content (fst (provider_generate_response call cfg prompt context)) = []"
    by (rule provider_error_content)
next
  fix r sent
  assume g: "generate_response m call prompt context p = Inr (r, sent)"
    and ne: "nonempty_error r"
  from ne have e: "error r \<noteq> None"
    by (auto simp add: nonempty_error_def split: option.splits)
  from g e show "content r = []"
    by (auto simp add: generate_response_def no_provider_response_def
        split: sum.splits option.splits if_splits dest: use_provider_error_content)
qed

theorem llm_response_error_content_witness:
  "nonempty_error
     (fst (provider_generate_response (\<lambda>c q. Raises (OtherError ''timed out''))
        \<lparr>cfg_provider = CLAUDE, api_key = ''k'', cfg_model = ''claude-3'', base_url = None,
         max_tokens = Some 2048, temperature = 7 / 10, timeout = 30\<rparr> ''hello'' None))
   \<and> content
     (fst (provider_generate_response (\<lambda>c q. Raises (OtherError ''timed out''))
        \<lparr>cfg_provider = CLAUDE, api_key = ''k'', cfg_model = ''claude-3'', base_url = None,
         max_tokens = Some 2048, temperature = 7 / 10, timeout = 30\<rparr> ''hello'' None)) = []
   \<and> generate_response \<lparr>providers = [], default_provider = None\<rparr>
         (\<lambda>c q. Raises (OtherError ''timed out'')) ''hello'' None PNone
       = Inr (no_provider_response, [])
   \<and> nonempty_error no_provider_response
   \<and> content no_provider_response = []"
proof -
  let ?call = "\<lambda>(c::LLMConfig) (q::string). Raises (OtherError ''timed out'')"
  let ?cfg = "\<lparr>cfg_provider = CLAUDE, api_key = ''k'', cfg_model = ''claude-3'',
    base_url = None, max_tokens = Some 2048, temperature = 7 / 10, timeout = 30\<rparr>"
  let ?m = "\<lparr>providers = [], default_provider = None\<rparr>"
  have a: "nonempty_error (fst (provider_generate_response ?call ?cfg ''hello'' None))"
    by (simp add: provider_generate_response_def error_response_def nonempty_error_def)
  have g: "generate_response ?m ?call ''hello'' None PNone = Inr (no_provider_response, [])"
    by (simp add: generate_response_def explicit_provider_def)
  have n: "nonempty_error no_provider_response"
    by (simp add: nonempty_error_def no_provider_response_def)
  from llm_response_error_content [of ?call ?cfg "''hello''" None ?m PNone] a g n
  show ?thesis by blast
qed



lemma map_of_dict_set:
  "map_of (dict_set k v d) k' = (if k' = k then Some v else map_of d k')"
  by (induction d) auto

lemma setup_gemini_default:
  "setup_gemini b env m = Inr m' \<Longrightarrow>
   default_provider m' =
     (if env_set env ''GEMINI_API_KEY'' then Some ''gemini'' else default_provider m)
   \<and> (env_set env ''GEMINI_API_KEY'' \<longrightarrow> map_of (providers m') ''gemini'' \<noteq> None)"
  by (auto simp add: setup_gemini_def env_set_def map_of_dict_set
      split: option.splits if_splits sum.splits)

lemma setup_openai_default:
  "setup_openai b env m = Inr m' \<Longrightarrow>
   default_provider m' = default_provider m
   \<and> (map_of (providers m) k \<noteq> None \<longrightarrow> map_of (providers m') k \<noteq> None)"
  by (auto simp add: setup_openai_def env_set_def map_of_dict_set
      split: option.splits if_splits sum.splits)

lemma setup_claude_default:
  "setup_claude b env m = Inr m' \<Longrightarrow>
   default_provider m' = default_provider m
   \<and> (map_of (providers m) k \<noteq> None \<longrightarrow> map_of (providers m') k \<noteq> None)"
  by (auto simp add: setup_claude_def env_set_def map_of_dict_set
      split: option.splits if_splits sum.splits)

lemma setup_custom_default:
  "setup_custom b env m = Inr m' \<Longrightarrow>
   default_provider m' = default_provider m
   \<and> (map_of (providers m) k \<noteq> None \<longrightarrow> map_of (providers m') k \<noteq> None)"
  by (auto simp add: setup_custom_def env_set_def map_of_dict_set
      split: option.splits if_splits sum.splits)

text \<open>
  C5, as the code has it. When the setup completes, the default provider is Gemini if
  the Gemini key is set and not empty, and there is no default otherwise, whichever
  other providers are configured; a default provider is always one of the configured
  providers.
\<close>

theorem default_provider_is_gemini_or_none:
  assumes "setup_providers b env = Inr m"
  shows "default_provider m =
           (if env_set env ''GEMINI_API_KEY'' then Some ''gemini'' else None)
         \<and> (\<forall>d. default_provider m = Some d \<longrightarrow> map_of (providers m) d \<noteq> None)"
proof -
  from assms obtain m1 m2 m3 where
    g: "setup_gemini b env \<lparr>providers = [], default_provider = None\<rparr> = Inr m1"
    and o: "setup_openai b env m1 = Inr m2"
    and c: "setup_claude b env m2 = Inr m3"
    and u: "setup_custom b env m3 = Inr m"
    by (auto simp add: setup_providers_def split: sum.splits)
  have d1: "default_provider m1 =
      (if env_set env ''GEMINI_API_KEY'' then Some ''gemini'' else None)"
    and p1: "env_set env ''GEMINI_API_KEY'' \<longrightarrow> map_of (providers m1) ''gemini'' \<noteq> None"
    using setup_gemini_default [OF g] by simp_all
  have d: "default_provider m = default_provider m1"
    using setup_openai_default [OF o] setup_claude_default [OF c]
      setup_custom_default [OF u]
    by simp
  have p: "map_of (providers m1) ''gemini'' \<noteq> None \<longrightarrow>
      map_of (providers m) ''gemini'' \<noteq> None"
    using setup_openai_default [OF o, of "''gemini''"]
      setup_claude_default [OF c, of "''gemini''"]
      setup_custom_default [OF u, of "''gemini''"]
    by simp
  show ?thesis using d d1 p1 p by (auto split: if_splits)
qed

lemmas setup_eval =
  setup_providers_def setup_gemini_def setup_openai_def setup_claude_def
  setup_custom_def getenv_def getenv_default_def env_set_def make_config_def
  decimal_builtins_def decimal_int_def decimal_float_def is_digit_def digits_value_def

theorem default_provider_is_gemini_or_none_witness:
  "setup_providers decimal_builtins
       [(''OPENAI_API_KEY'', ''o''), (''GEMINI_API_KEY'', ''g'')]
     = Inr \<lparr>providers =
              [(''gemini'',
                \<lparr>cfg_provider = GEMINI, api_key = ''g'', cfg_model = ''gemini-1.5-flash'',
                 base_url = None, max_tokens = Some 2048, temperature = 7 / 10,
                 timeout = 30\<rparr>),
               (''openai'',
                \<lparr>cfg_provider = OPENAI, api_key = ''o'', cfg_model = ''gpt-4'',
                 base_url = None, max_tokens = Some 2048, temperature = 7 / 10,
                 timeout = 30\<rparr>)],
            default_provider = Some ''gemini''\<rparr>
   \<and> env_set [(''OPENAI_API_KEY'', ''o''), (''GEMINI_API_KEY'', ''g'')] ''GEMINI_API_KEY''"
proof -
  let ?env = "[(''OPENAI_API_KEY'', ''o''), (''GEMINI_API_KEY'', ''g'')]"
  let ?m = "\<lparr>providers =
              [(''gemini'',
                \<lparr>cfg_provider = GEMINI, api_key = ''g'', cfg_model = ''gemini-1.5-flash'',
                 base_url = None, max_tokens = Some 2048, temperature = 7 / 10,
                 timeout = 30\<rparr>),
               (''openai'',
                \<lparr>cfg_provider = OPENAI, api_key = ''o'', cfg_model = ''gpt-4'',
                 base_url = None, max_tokens = Some 2048, temperature = 7 / 10,
                 timeout = 30\<rparr>)],
            default_provider = Some ''gemini''\<rparr>"
  have s: "setup_providers decimal_builtins ?env = Inr ?m"
    by (simp add: setup_eval)
  from default_provider_is_gemini_or_none [OF s] have "env_set ?env ''GEMINI_API_KEY''"
    by (simp split: if_splits)
  with s show ?thesis by simp
qed

text \<open>
  With only the OpenAI key in the environment the OpenAI provider is configured and
  no default provider is set.
\<close>

theorem setup_openai_only_no_default:
  "setup_providers decimal_builtins [(''OPENAI_API_KEY'', ''sk-test'')] =
     Inr \<lparr>providers =
            [(''openai'',
              \<lparr>cfg_provider = OPENAI, api_key = ''sk-test'', cfg_model = ''gpt-4'',
               base_url = None, max_tokens = Some 2048, temperature = 7 / 10,
               timeout = 30\<rparr>)],
          default_provider = None\<rparr>"
  by (simp add: setup_eval)

section \<open>Properties of the servers\<close>

lemma show_nat_4: "show_nat (Suc (Suc (Suc (Suc 0)))) = ''4''"
proof -
  have "show_nat 4 = ''4''" by code_simp
  then show ?thesis by (simp add: eval_nat_numeral)
qed

lemma dispatch_connect:
  "dispatch w ''connect_cluster'' arguments st = handle_connect_cluster w arguments st"
  by (simp add: dispatch_def)

lemma handle_connect_cluster_cases:
  "handle_connect_cluster w arguments st =
     (if truthy (dict_get arguments ''cluster_url'') \<and> truthy (dict_get arguments ''token'')
      then (Inl (TypeError
              ''OpenShiftCluster.__init__() takes 3 positional arguments but 4 were given''),
            st)
      else (Inr (error_dict ''cluster_url and token are required''), st))"
  by (simp add: handle_connect_cluster_def Let_def show_nat_4)

text \<open>
  C9. In the LLM-enabled server every \<open>connect_cluster\<close> invocation answers an error
  and leaves the state, and so the global handle, as it was. With both
  \<open>cluster_url\<close> and \<open>token\<close> given, the constructor call with three arguments
  raises \<open>TypeError\<close> before the handle is assigned.
\<close>

theorem connect_cluster_never_connects:
  "is_error (fst (call_tool w ''connect_cluster'' arguments st))
   \<and> snd (call_tool w ''connect_cluster'' arguments st) = st
   \<and> (truthy (dict_get arguments ''cluster_url'') \<and> truthy (dict_get arguments ''token'') \<longrightarrow>
        dispatch w ''connect_cluster'' arguments st =
          (Inl (TypeError
             ''OpenShiftCluster.__init__() takes 3 positional arguments but 4 were given''),
           st))"
  by (simp add: call_tool_def dispatch_connect handle_connect_cluster_cases is_error_def
      error_dict_def)

theorem connect_cluster_never_connects_witness:
  "truthy (dict_get [(''cluster_url'', PStr ''https://api.example:6443''),
                     (''token'', PStr ''sha256~abc'')] ''cluster_url'')
   \<and> truthy (dict_get [(''cluster_url'', PStr ''https://api.example:6443''),
                       (''token'', PStr ''sha256~abc'')] ''token'')
   \<and> dispatch quiet_world ''connect_cluster''
        [(''cluster_url'', PStr ''https://api.example:6443''), (''token'', PStr ''sha256~abc'')]
        connected_state =
      (Inl (TypeError
         ''OpenShiftCluster.__init__() takes 3 positional arguments but 4 were given''),
       connected_state)
   \<and> cluster (snd (call_tool quiet_world ''connect_cluster''
        [(''cluster_url'', PStr ''https://api.example:6443''), (''token'', PStr ''sha256~abc'')]
        connected_state)) = cluster connected_state"
proof -
  let ?a = "[(''cluster_url'', PStr ''https://api.example:6443''),
             (''token'', PStr ''sha256~abc'')]"
  have t: "truthy (dict_get ?a ''cluster_url'') \<and> truthy (dict_get ?a ''token'')"
    by (simp add: dict_get_def)
  from connect_cluster_never_connects [of quiet_world ?a connected_state] t
  show ?thesis by simp
qed

lemma handle_namespaced_not_connected:
  "cluster st = None \<Longrightarrow> handle_namespaced meth key w arguments st = (Inr not_connected, st)"
  by (simp add: handle_namespaced_def)

lemma dispatch_not_connected:
  assumes "cluster st = None" and "name \<in> set cluster_tools"
  shows "dispatch w name arguments st = (Inr not_connected, st)"
  using assms
  by (auto simp add: cluster_tools_def dispatch_def handle_list_namespaces_def
      handle_list_applications_def handle_list_pods_def handle_list_services_def
      handle_list_routes_def handle_list_configmaps_def handle_list_secrets_def
      handle_get_resource_usage_def handle_namespaced_not_connected
      handle_get_pod_logs_def handle_scale_deployment_def handle_delete_pod_def
      handle_create_namespace_def handle_delete_namespace_def)

lemma base_list_not_connected:
  "cluster st = None \<Longrightarrow> base_list meth noun w arguments st = (Inr not_connected_text, st)"
  by (simp add: base_list_def)

lemma base_dispatch_not_connected:
  assumes "cluster st = None" and "name \<in> set base_cluster_tools"
  shows "base_dispatch w name arguments st = (Inr not_connected_text, st)"
  using assms
  by (auto simp add: base_cluster_tools_def base_dispatch_def base_list_namespaces_def
      base_list_not_connected base_get_pod_logs_def base_get_resource_usage_def
      base_scale_deployment_def)

text \<open>
  C2, as the code has it. With no handle, every cluster tool of the LLM-enabled server
  answers the error "Not connected to cluster. Use connect_cluster first." and every
  cluster tool of the base server answers the text "Error: Not connected to a cluster.
  Please connect first using connect_cluster."; the state is unchanged, so no gateway
  method was called, and nothing is raised.
\<close>

theorem not_connected_error:
  assumes "cluster st = None"
  shows "(name \<in> set cluster_tools \<longrightarrow>
            call_tool w name arguments st =
              (error_dict ''Not connected to cluster. Use connect_cluster first.'', st))
         \<and> (name \<in> set base_cluster_tools \<longrightarrow>
            handle_call_tool w name arguments st =
              (''Error: Not connected to a cluster. Please connect first using connect_cluster.'',
               st))"
  using assms
  by (simp add: call_tool_def handle_call_tool_def dispatch_not_connected
      base_dispatch_not_connected not_connected_def not_connected_text_def)

theorem not_connected_error_witness:
  "cluster initial_state = None
   \<and> ''delete_pod'' \<in> set cluster_tools
   \<and> call_tool quiet_world ''delete_pod'' [(''namespace'', PStr ''shop'')] initial_state =
       (error_dict ''Not connected to cluster. Use connect_cluster first.'', initial_state)
   \<and> ''get_pod_logs'' \<in> set base_cluster_tools
   \<and> handle_call_tool quiet_world ''get_pod_logs'' [(''namespace'', PStr ''shop'')]
       initial_state =
       (''Error: Not connected to a cluster. Please connect first using connect_cluster.'',
        initial_state)"
proof -
  have c: "cluster initial_state = None"
    by (simp add: initial_state_def)
  have m1: "''delete_pod'' \<in> set cluster_tools"
    by (simp add: cluster_tools_def)
  have m2: "''get_pod_logs'' \<in> set base_cluster_tools"
    by (simp add: base_cluster_tools_def)
  from not_connected_error [OF c, of "''delete_pod''" quiet_world
      "[(''namespace'', PStr ''shop'')]"] m1
  have r1: "call_tool quiet_world ''delete_pod'' [(''namespace'', PStr ''shop'')] initial_state =
       (error_dict ''Not connected to cluster. Use connect_cluster first.'', initial_state)"
    by blast
  from not_connected_error [OF c, of "''get_pod_logs''" quiet_world
      "[(''namespace'', PStr ''shop'')]"] m2
  have r2: "handle_call_tool quiet_world ''get_pod_logs'' [(''namespace'', PStr ''shop'')]
       initial_state =
       (''Error: Not connected to a cluster. Please connect first using connect_cluster.'',
        initial_state)"
    by blast
  from c m1 m2 r1 r2 show ?thesis by blast
qed

text \<open>
  The error of a cluster tool without a handle is not the string
  "Not connected to cluster".
\<close>

theorem not_connected_message_differs:
  "fst (call_tool quiet_world ''list_namespaces'' [] initial_state)
     \<noteq> error_dict ''Not connected to cluster''"
  by (simp add: call_tool_def dispatch_def handle_list_namespaces_def initial_state_def
      not_connected_def error_dict_def)



lemma usage_report_raises: "\<exists>e. usage_report w ns usage = Inl e"
  by (auto simp add: usage_report_def split: sum.splits option.splits)

text \<open>
  C10. In the base server, with a connected cluster, a \<open>get_resource_usage\<close>
  invocation whose gateway value has no key \<open>error\<close> never answers the usage report:
  building the report raises, and the answer is the catch-all text
  "Error executing tool 'get_resource_usage': ..." with the text of that exception.
\<close>

theorem resource_usage_never_reports:
  assumes "cluster st = Some c"
    and "map_of arguments ''namespace'' = Some ns"
    and "cluster_method (k8s w) c ''get_resource_usage'' [ns] = Inr usage"
    and "py_contains usage ''error'' = Inr False"
  shows "\<exists>e. usage_report w ns usage = Inl e
           \<and> handle_call_tool w ''get_resource_usage'' arguments st =
               (catch_all_text ''get_resource_usage'' e,
                st\<lparr>gateway_calls := gateway_calls st @ [(''get_resource_usage'', [ns])]\<rparr>)"
proof -
  obtain e where e: "usage_report w ns usage = Inl e"
    using usage_report_raises by blast
  have "base_dispatch w ''get_resource_usage'' arguments st =
      (Inl e, st\<lparr>gateway_calls := gateway_calls st @ [(''get_resource_usage'', [ns])]\<rparr>)"
    using assms e
    by (simp add: base_dispatch_def base_get_resource_usage_def dict_index_def
        call_cluster_def)
  then show ?thesis using e by (simp add: handle_call_tool_def)
qed

theorem resource_usage_never_reports_witness:
  "cluster connected_state = Some \<lparr>cluster_url = PStr ''https://api.example:6443'',
                                   token = PStr ''sha256~abc''\<rparr>
   \<and> map_of [(''namespace'', PStr ''shop'')] ''namespace'' = Some (PStr ''shop'')
   \<and> cluster_method (k8s usage_world)
        \<lparr>cluster_url = PStr ''https://api.example:6443'', token = PStr ''sha256~abc''\<rparr>
        ''get_resource_usage'' [PStr ''shop''] = Inr (empty_usage (PStr ''shop''))
   \<and> py_contains (empty_usage (PStr ''shop'')) ''error'' = Inr False
   \<and> handle_call_tool usage_world ''get_resource_usage'' [(''namespace'', PStr ''shop'')]
        connected_state =
       (catch_all_text ''get_resource_usage''
          (NameError (''name '' @ quoted ''self'' @ '' is not defined'')),
        connected_state\<lparr>gateway_calls := [(''get_resource_usage'', [PStr ''shop''])]\<rparr>)"
proof -
  let ?c = "\<lparr>cluster_url = PStr ''https://api.example:6443'', token = PStr ''sha256~abc''\<rparr>"
  have h1: "cluster connected_state = Some ?c"
    by (simp add: connected_state_def)
  have h2: "map_of [(''namespace'', PStr ''shop'')] ''namespace'' = Some (PStr ''shop'')"
    by simp
  have h3: "cluster_method (k8s usage_world) ?c ''get_resource_usage'' [PStr ''shop'']
      = Inr (empty_usage (PStr ''shop''))"
    by (simp add: cluster_method_def usage_world_def list_methods_def info_methods_def)
  have h4: "py_contains (empty_usage (PStr ''shop'')) ''error'' = Inr False"
    by (simp add: empty_usage_def)
  have u: "usage_report usage_world (PStr ''shop'') (empty_usage (PStr ''shop''))
      = Inl (NameError (''name '' @ quoted ''self'' @ '' is not defined''))"
    by (simp add: usage_report_def empty_usage_def dict_index_def)
  have g: "gateway_calls connected_state = []"
    by (simp add: connected_state_def initial_state_def)
  from resource_usage_never_reports [OF h1 h2 h3 h4] u g
  have "handle_call_tool usage_world ''get_resource_usage'' [(''namespace'', PStr ''shop'')]
        connected_state =
       (catch_all_text ''get_resource_usage''
          (NameError (''name '' @ quoted ''self'' @ '' is not defined'')),
        connected_state\<lparr>gateway_calls := [(''get_resource_usage'', [PStr ''shop''])]\<rparr>)"
    by auto
  with h1 h2 h3 h4 show ?thesis by blast
qed

lemma dict_get_missing: "map_of arguments k = None \<Longrightarrow> dict_get arguments k = PNone"
  by (simp add: dict_get_def)

lemma handle_namespaced_missing:
  "map_of arguments ''namespace'' = None \<Longrightarrow>
   handle_namespaced meth key w arguments st =
     (Inr (if cluster st = None then not_connected else error_dict ''namespace is required''),
      st)"
  by (simp add: handle_namespaced_def dict_get_missing split: option.splits)

lemma dispatch_missing_connect_cluster:
  assumes "k \<in> set [''cluster_url'', ''token'']" and "map_of arguments k = None"
  shows "dispatch w ''connect_cluster'' arguments st =
     (Inr (error_dict ''cluster_url and token are required''), st)"
  using assms
  by (auto simp add: dispatch_def handle_connect_cluster_def dict_get_missing Let_def
      split: option.splits)

lemma required_args_connect_cluster: "required_args ''connect_cluster'' = [''cluster_url'', ''token'']"
  by (simp add: required_args_def tool_specs_def)

lemma validation_message_connect_cluster: "validation_message ''connect_cluster'' = ''cluster_url and token are required''"
  by (simp add: validation_message_def)

lemma cluster_tool_connect_cluster: "(''connect_cluster'' \<in> set cluster_tools) = False"
  by (simp add: cluster_tools_def)

lemma missing_argument_connect_cluster:
  assumes "k \<in> set [''cluster_url'', ''token'']" and "map_of arguments k = None"
  shows "snd (call_tool w ''connect_cluster'' arguments st) = st
         \<and> is_error (fst (call_tool w ''connect_cluster'' arguments st))
         \<and> (cluster st \<noteq> None \<or> ''connect_cluster'' \<notin> set cluster_tools \<longrightarrow>
              fst (call_tool w ''connect_cluster'' arguments st)
                = error_dict (validation_message ''connect_cluster'')
              \<and> py_in k (validation_message ''connect_cluster'')
              \<and> py_in ''required'' (validation_message ''connect_cluster'')
              \<and> (required_args ''connect_cluster'' = [k] \<longrightarrow>
                   validation_message ''connect_cluster'' = k @ '' is required''))"
proof -
  have d: "call_tool w ''connect_cluster'' arguments st =
      (error_dict ''cluster_url and token are required'', st)"
    by (simp add: call_tool_def dispatch_missing_connect_cluster [OF assms])
  have m: "py_in k ''cluster_url and token are required'' \<and> py_in ''required'' ''cluster_url and token are required''"
    using assms(1) by (auto simp add: starts_with_def)
  show ?thesis
    using m assms(1)
    by (auto simp add: d required_args_connect_cluster validation_message_connect_cluster cluster_tool_connect_cluster
        is_error_def error_dict_def not_connected_def)
qed

lemma dispatch_missing_list_applications:
  assumes "k \<in> set [''namespace'']" and "map_of arguments k = None"
  shows "dispatch w ''list_applications'' arguments st =
     (Inr (if cluster st = None then not_connected
           else error_dict ''namespace is required''), st)"
  using assms
  by (simp add: dispatch_def handle_list_applications_def handle_namespaced_missing)

lemma required_args_list_applications: "required_args ''list_applications'' = [''namespace'']"
  by (simp add: required_args_def tool_specs_def)

lemma validation_message_list_applications: "validation_message ''list_applications'' = ''namespace is required''"
  by (simp add: validation_message_def)

lemma cluster_tool_list_applications: "(''list_applications'' \<in> set cluster_tools) = True"
  by (simp add: cluster_tools_def)

lemma missing_argument_list_applications:
  assumes "k \<in> set [''namespace'']" and "map_of arguments k = None"
  shows "snd (call_tool w ''list_applications'' arguments st) = st
         \<and> is_error (fst (call_tool w ''list_applications'' arguments st))
         \<and> (cluster st \<noteq> None \<or> ''list_applications'' \<notin> set cluster_tools \<longrightarrow>
              fst (call_tool w ''list_applications'' arguments st)
                = error_dict (validation_message ''list_applications'')
              \<and> py_in k (validation_message ''list_applications'')
              \<and> py_in ''required'' (validation_message ''list_applications'')
              \<and> (required_args ''list_applications'' = [k] \<longrightarrow>
                   validation_message ''list_applications'' = k @ '' is required''))"
proof -
  have d: "call_tool w ''list_applications'' arguments st =
      (if cluster st = None then not_connected else error_dict ''namespace is required'', st)"
    by (simp add: call_tool_def dispatch_missing_list_applications [OF assms])
  have m: "py_in k ''namespace is required'' \<and> py_in ''required'' ''namespace is required''"
    using assms(1) by (auto simp add: starts_with_def)
  show ?thesis
    using m assms(1)
    by (auto simp add: d required_args_list_applications validation_message_list_applications cluster_tool_list_applications
        is_error_def error_dict_def not_connected_def)
qed

lemma dispatch_missing_list_pods:
  assumes "k \<in> set [''namespace'']" and "map_of arguments k = None"
  shows "dispatch w ''list_pods'' arguments st =
     (Inr (if cluster st = None then not_connected
           else error_dict ''namespace is required''), st)"
  using assms
  by (simp add: dispatch_def handle_list_pods_def handle_namespaced_missing)

lemma required_args_list_pods: "required_args ''list_pods'' = [''namespace'']"
  by (simp add: required_args_def tool_specs_def)

lemma validation_message_list_pods: "validation_message ''list_pods'' = ''namespace is required''"
  by (simp add: validation_message_def)

lemma cluster_tool_list_pods: "(''list_pods'' \<in> set cluster_tools) = True"
  by (simp add: cluster_tools_def)

lemma missing_argument_list_pods:
  assumes "k \<in> set [''namespace'']" and "map_of arguments k = None"
  shows "snd (call_tool w ''list_pods'' arguments st) = st
         \<and> is_error (fst (call_tool w ''list_pods'' arguments st))
         \<and> (cluster st \<noteq> None \<or> ''list_pods'' \<notin> set cluster_tools \<longrightarrow>
              fst (call_tool w ''list_pods'' arguments st)
                = error_dict (validation_message ''list_pods'')
              \<and> py_in k (validation_message ''list_pods'')
              \<and> py_in ''required'' (validation_message ''list_pods'')
              \<and> (required_args ''list_pods'' = [k] \<longrightarrow>
                   validation_message ''list_pods'' = k @ '' is required''))"
proof -
  have d: "call_tool w ''list_pods'' arguments st =
      (if cluster st = None then not_connected else error_dict ''namespace is required'', st)"
    by (simp add: call_tool_def dispatch_missing_list_pods [OF assms])
  have m: "py_in k ''namespace is required'' \<and> py_in ''required'' ''namespace is required''"
    using assms(1) by (auto simp add: starts_with_def)
  show ?thesis
    using m assms(1)
    by (auto simp add: d required_args_list_pods validation_message_list_pods cluster_tool_list_pods
        is_error_def error_dict_def not_connected_def)
qed

lemma dispatch_missing_list_services:
  assumes "k \<in> set [''namespace'']" and "map_of arguments k = None"
  shows "dispatch w ''list_services'' arguments st =
     (Inr (if cluster st = None then not_connected
           else error_dict ''namespace is required''), st)"
  using assms
  by (simp add: dispatch_def handle_list_services_def handle_namespaced_missing)

lemma required_args_list_services: "required_args ''list_services'' = [''namespace'']"
  by (simp add: required_args_def tool_specs_def)

lemma validation_message_list_services: "validation_message ''list_services'' = ''namespace is required''"
  by (simp add: validation_message_def)

lemma cluster_tool_list_services: "(''list_services'' \<in> set cluster_tools) = True"
  by (simp add: cluster_tools_def)

lemma missing_argument_list_services:
  assumes "k \<in> set [''namespace'']" and "map_of arguments k = None"
  shows "snd (call_tool w ''list_services'' arguments st) = st
         \<and> is_error (fst (call_tool w ''list_services'' arguments st))
         \<and> (cluster st \<noteq> None \<or> ''list_services'' \<notin> set cluster_tools \<longrightarrow>
              fst (call_tool w ''list_services'' arguments st)
                = error_dict (validation_message ''list_services'')
              \<and> py_in k (validation_message ''list_services'')
              \<and> py_in ''required'' (validation_message ''list_services'')
              \<and> (required_args ''list_services'' = [k] \<longrightarrow>
                   validation_message ''list_services'' = k @ '' is required''))"
proof -
  have d: "call_tool w ''list_services'' arguments st =
      (if cluster st = None then not_connected else error_dict ''namespace is required'', st)"
    by (simp add: call_tool_def dispatch_missing_list_services [OF assms])
  have m: "py_in k ''namespace is required'' \<and> py_in ''required'' ''namespace is required''"
    using assms(1) by (auto simp add: starts_with_def)
  show ?thesis
    using m assms(1)
    by (auto simp add: d required_args_list_services validation_message_list_services cluster_tool_list_services
        is_error_def error_dict_def not_connected_def)
qed

lemma dispatch_missing_list_routes:
  assumes "k \<in> set [''namespace'']" and "map_of arguments k = None"
  shows "dispatch w ''list_routes'' arguments st =
     (Inr (if cluster st = None then not_connected
           else error_dict ''namespace is required''), st)"
  using assms
  by (simp add: dispatch_def handle_list_routes_def handle_namespaced_missing)

lemma required_args_list_routes: "required_args ''list_routes'' = [''namespace'']"
  by (simp add: required_args_def tool_specs_def)

lemma validation_message_list_routes: "validation_message ''list_routes'' = ''namespace is required''"
  by (simp add: validation_message_def)

lemma cluster_tool_list_routes: "(''list_routes'' \<in> set cluster_tools) = True"
  by (simp add: cluster_tools_def)

lemma missing_argument_list_routes:
  assumes "k \<in> set [''namespace'']" and "map_of arguments k = None"
  shows "snd (call_tool w ''list_routes'' arguments st) = st
         \<and> is_error (fst (call_tool w ''list_routes'' arguments st))
         \<and> (cluster st \<noteq> None \<or> ''list_routes'' \<notin> set cluster_tools \<longrightarrow>
              fst (call_tool w ''list_routes'' arguments st)
                = error_dict (validation_message ''list_routes'')
              \<and> py_in k (validation_message ''list_routes'')
              \<and> py_in ''required'' (validation_message ''list_routes'')
              \<and> (required_args ''list_routes'' = [k] \<longrightarrow>
                   validation_message ''list_routes'' = k @ '' is required''))"
proof -
  have d: "call_tool w ''list_routes'' arguments st =
      (if cluster st = None then not_connected else error_dict ''namespace is required'', st)"
    by (simp add: call_tool_def dispatch_missing_list_routes [OF assms])
  have m: "py_in k ''namespace is required'' \<and> py_in ''required'' ''namespace is required''"
    using assms(1) by (auto simp add: starts_with_def)
  show ?thesis
    using m assms(1)
    by (auto simp add: d required_args_list_routes validation_message_list_routes cluster_tool_list_routes
        is_error_def error_dict_def not_connected_def)
qed

lemma dispatch_missing_list_configmaps:
  assumes "k \<in> set [''namespace'']" and "map_of arguments k = None"
  shows "dispatch w ''list_configmaps'' arguments st =
     (Inr (if cluster st = None then not_connected
           else error_dict ''namespace is required''), st)"
  using assms
  by (simp add: dispatch_def handle_list_configmaps_def handle_namespaced_missing)

lemma required_args_list_configmaps: "required_args ''list_configmaps'' = [''namespace'']"
  by (simp add: required_args_def tool_specs_def)

lemma validation_message_list_configmaps: "validation_message ''list_configmaps'' = ''namespace is required''"
  by (simp add: validation_message_def)

lemma cluster_tool_list_configmaps: "(''list_configmaps'' \<in> set cluster_tools) = True"
  by (simp add: cluster_tools_def)

lemma missing_argument_list_configmaps:
  assumes "k \<in> set [''namespace'']" and "map_of arguments k = None"
  shows "snd (call_tool w ''list_configmaps'' arguments st) = st
         \<and> is_error (fst (call_tool w ''list_configmaps'' arguments st))
         \<and> (cluster st \<noteq> None \<or> ''list_configmaps'' \<notin> set cluster_tools \<longrightarrow>
              fst (call_tool w ''list_configmaps'' arguments st)
                = error_dict (validation_message ''list_configmaps'')
              \<and> py_in k (validation_message ''list_configmaps'')
              \<and> py_in ''required'' (validation_message ''list_configmaps'')
              \<and> (required_args ''list_configmaps'' = [k] \<longrightarrow>
                   validation_message ''list_configmaps'' = k @ '' is required''))"
proof -
  have d: "call_tool w ''list_configmaps'' arguments st =
      (if cluster st = None then not_connected else error_dict ''namespace is required'', st)"
    by (simp add: call_tool_def dispatch_missing_list_configmaps [OF assms])
  have m: "py_in k ''namespace is required'' \<and> py_in ''required'' ''namespace is required''"
    using assms(1) by (auto simp add: starts_with_def)
  show ?thesis
    using m assms(1)
    by (auto simp add: d required_args_list_configmaps validation_message_list_configmaps cluster_tool_list_configmaps
        is_error_def error_dict_def not_connected_def)
qed

lemma dispatch_missing_list_secrets:
  assumes "k \<in> set [''namespace'']" and "map_of arguments k = None"
  shows "dispatch w ''list_secrets'' arguments st =
     (Inr (if cluster st = None then not_connected
           else error_dict ''namespace is required''), st)"
  using assms
  by (simp add: dispatch_def handle_list_secrets_def handle_namespaced_missing)

lemma required_args_list_secrets: "required_args ''list_secrets'' = [''namespace'']"
  by (simp add: required_args_def tool_specs_def)

lemma validation_message_list_secrets: "validation_message ''list_secrets'' = ''namespace is required''"
  by (simp add: validation_message_def)

lemma cluster_tool_list_secrets: "(''list_secrets'' \<in> set cluster_tools) = True"
  by (simp add: cluster_tools_def)

lemma missing_argument_list_secrets:
  assumes "k \<in> set [''namespace'']" and "map_of arguments k = None"
  shows "snd (call_tool w ''list_secrets'' arguments st) = st
         \<and> is_error (fst (call_tool w ''list_secrets'' arguments st))
         \<and> (cluster st \<noteq> None \<or> ''list_secrets'' \<notin> set cluster_tools \<longrightarrow>
              fst (call_tool w ''list_secrets'' arguments st)
                = error_dict (validation_message ''list_secrets'')
              \<and> py_in k (validation_message ''list_secrets'')
              \<and> py_in ''required'' (validation_message ''list_secrets'')
              \<and> (required_args ''list_secrets'' = [k] \<longrightarrow>
                   validation_message ''list_secrets'' = k @ '' is required''))"
proof -
  have d: "call_tool w ''list_secrets'' arguments st =
      (if cluster st = None then not_connected else error_dict ''namespace is required'', st)"
    by (simp add: call_tool_def dispatch_missing_list_secrets [OF assms])
  have m: "py_in k ''namespace is required'' \<and> py_in ''required'' ''namespace is required''"
    using assms(1) by (auto simp add: starts_with_def)
  show ?thesis
    using m assms(1)
    by (auto simp add: d required_args_list_secrets validation_message_list_secrets cluster_tool_list_secrets
        is_error_def error_dict_def not_connected_def)
qed

lemma dispatch_missing_get_pod_logs:
  assumes "k \<in> set [''namespace'', ''pod_name'']" and "map_of arguments k = None"
  shows "dispatch w ''get_pod_logs'' arguments st =
     (Inr (if cluster st = None then not_connected
           else error_dict ''namespace and pod_name are required''), st)"
  using assms
  by (auto simp add: dispatch_def handle_get_pod_logs_def dict_get_missing Let_def
      split: option.splits)

lemma required_args_get_pod_logs: "required_args ''get_pod_logs'' = [''namespace'', ''pod_name'']"
  by (simp add: required_args_def tool_specs_def)

lemma validation_message_get_pod_logs: "validation_message ''get_pod_logs'' = ''namespace and pod_name are required''"
  by (simp add: validation_message_def)

lemma cluster_tool_get_pod_logs: "(''get_pod_logs'' \<in> set cluster_tools) = True"
  by (simp add: cluster_tools_def)

lemma missing_argument_get_pod_logs:
  assumes "k \<in> set [''namespace'', ''pod_name'']" and "map_of arguments k = None"
  shows "snd (call_tool w ''get_pod_logs'' arguments st) = st
         \<and> is_error (fst (call_tool w ''get_pod_logs'' arguments st))
         \<and> (cluster st \<noteq> None \<or> ''get_pod_logs'' \<notin> set cluster_tools \<longrightarrow>
              fst (call_tool w ''get_pod_logs'' arguments st)
                = error_dict (validation_message ''get_pod_logs'')
              \<and> py_in k (validation_message ''get_pod_logs'')
              \<and> py_in ''required'' (validation_message ''get_pod_logs'')
              \<and> (required_args ''get_pod_logs'' = [k] \<longrightarrow>
                   validation_message ''get_pod_logs'' = k @ '' is required''))"
proof -
  have d: "call_tool w ''get_pod_logs'' arguments st =
      (if cluster st = None then not_connected else error_dict ''namespace and pod_name are required'', st)"
    by (simp add: call_tool_def dispatch_missing_get_pod_logs [OF assms])
  have m: "py_in k ''namespace and pod_name are required'' \<and> py_in ''required'' ''namespace and pod_name are required''"
    using assms(1) by (auto simp add: starts_with_def)
  show ?thesis
    using m assms(1)
    by (auto simp add: d required_args_get_pod_logs validation_message_get_pod_logs cluster_tool_get_pod_logs
        is_error_def error_dict_def not_connected_def)
qed

lemma dispatch_missing_get_resource_usage:
  assumes "k \<in> set [''namespace'']" and "map_of arguments k = None"
  shows "dispatch w ''get_resource_usage'' arguments st =
     (Inr (if cluster st = None then not_connected
           else error_dict ''namespace is required''), st)"
  using assms
  by (simp add: dispatch_def handle_get_resource_usage_def handle_namespaced_missing)

lemma required_args_get_resource_usage: "required_args ''get_resource_usage'' = [''namespace'']"
  by (simp add: required_args_def tool_specs_def)

lemma validation_message_get_resource_usage: "validation_message ''get_resource_usage'' = ''namespace is required''"
  by (simp add: validation_message_def)

lemma cluster_tool_get_resource_usage: "(''get_resource_usage'' \<in> set cluster_tools) = True"
  by (simp add: cluster_tools_def)

lemma missing_argument_get_resource_usage:
  assumes "k \<in> set [''namespace'']" and "map_of arguments k = None"
  shows "snd (call_tool w ''get_resource_usage'' arguments st) = st
         \<and> is_error (fst (call_tool w ''get_resource_usage'' arguments st))
         \<and> (cluster st \<noteq> None \<or> ''get_resource_usage'' \<notin> set cluster_tools \<longrightarrow>
              fst (call_tool w ''get_resource_usage'' arguments st)
                = error_dict (validation_message ''get_resource_usage'')
              \<and> py_in k (validation_message ''get_resource_usage'')
              \<and> py_in ''required'' (validation_message ''get_resource_usage'')
              \<and> (required_args ''get_resource_usage'' = [k] \<longrightarrow>
                   validation_message ''get_resource_usage'' = k @ '' is required''))"
proof -
  have d: "call_tool w ''get_resource_usage'' arguments st =
      (if cluster st = None then not_connected else error_dict ''namespace is required'', st)"
    by (simp add: call_tool_def dispatch_missing_get_resource_usage [OF assms])
  have m: "py_in k ''namespace is required'' \<and> py_in ''required'' ''namespace is required''"
    using assms(1) by (auto simp add: starts_with_def)
  show ?thesis
    using m assms(1)
    by (auto simp add: d required_args_get_resource_usage validation_message_get_resource_usage cluster_tool_get_resource_usage
        is_error_def error_dict_def not_connected_def)
qed

lemma dispatch_missing_scale_deployment:
  assumes "k \<in> set [''namespace'', ''deployment_name'', ''replicas'']" and "map_of arguments k = None"
  shows "dispatch w ''scale_deployment'' arguments st =
     (Inr (if cluster st = None then not_connected
           else error_dict ''namespace, deployment_name, and replicas are required''), st)"
  using assms
  by (auto simp add: dispatch_def handle_scale_deployment_def dict_get_missing Let_def
      split: option.splits)

lemma required_args_scale_deployment: "required_args ''scale_deployment'' = [''namespace'', ''deployment_name'', ''replicas'']"
  by (simp add: required_args_def tool_specs_def)

lemma validation_message_scale_deployment: "validation_message ''scale_deployment'' = ''namespace, deployment_name, and replicas are required''"
  by (simp add: validation_message_def)

lemma cluster_tool_scale_deployment: "(''scale_deployment'' \<in> set cluster_tools) = True"
  by (simp add: cluster_tools_def)

lemma missing_argument_scale_deployment:
  assumes "k \<in> set [''namespace'', ''deployment_name'', ''replicas'']" and "map_of arguments k = None"
  shows "snd (call_tool w ''scale_deployment'' arguments st) = st
         \<and> is_error (fst (call_tool w ''scale_deployment'' arguments st))
         \<and> (cluster st \<noteq> None \<or> ''scale_deployment'' \<notin> set cluster_tools \<longrightarrow>
              fst (call_tool w ''scale_deployment'' arguments st)
                = error_dict (validation_message ''scale_deployment'')
              \<and> py_in k (validation_message ''scale_deployment'')
              \<and> py_in ''required'' (validation_message ''scale_deployment'')
              \<and> (required_args ''scale_deployment'' = [k] \<longrightarrow>
                   validation_message ''scale_deployment'' = k @ '' is required''))"
proof -
  have d: "call_tool w ''scale_deployment'' arguments st =
      (if cluster st = None then not_connected else error_dict ''namespace, deployment_name, and replicas are required'', st)"
    by (simp add: call_tool_def dispatch_missing_scale_deployment [OF assms])
  have m: "py_in k ''namespace, deployment_name, and replicas are required'' \<and> py_in ''required'' ''namespace, deployment_name, and replicas are required''"
    using assms(1) by (auto simp add: starts_with_def)
  show ?thesis
    using m assms(1)
    by (auto simp add: d required_args_scale_deployment validation_message_scale_deployment cluster_tool_scale_deployment
        is_error_def error_dict_def not_connected_def)
qed

lemma dispatch_missing_delete_pod:
  assumes "k \<in> set [''namespace'', ''pod_name'']" and "map_of arguments k = None"
  shows "dispatch w ''delete_pod'' arguments st =
     (Inr (if cluster st = None then not_connected
           else error_dict ''namespace and pod_name are required''), st)"
  using assms
  by (auto simp add: dispatch_def handle_delete_pod_def dict_get_missing Let_def
      split: option.splits)

lemma required_args_delete_pod: "required_args ''delete_pod'' = [''namespace'', ''pod_name'']"
  by (simp add: required_args_def tool_specs_def)

lemma validation_message_delete_pod: "validation_message ''delete_pod'' = ''namespace and pod_name are required''"
  by (simp add: validation_message_def)

lemma cluster_tool_delete_pod: "(''delete_pod'' \<in> set cluster_tools) = True"
  by (simp add: cluster_tools_def)

lemma missing_argument_delete_pod:
  assumes "k \<in> set [''namespace'', ''pod_name'']" and "map_of arguments k = None"
  shows "snd (call_tool w ''delete_pod'' arguments st) = st
         \<and> is_error (fst (call_tool w ''delete_pod'' arguments st))
         \<and> (cluster st \<noteq> None \<or> ''delete_pod'' \<notin> set cluster_tools \<longrightarrow>
              fst (call_tool w ''delete_pod'' arguments st)
                = error_dict (validation_message ''delete_pod'')
              \<and> py_in k (validation_message ''delete_pod'')
              \<and> py_in ''required'' (validation_message ''delete_pod'')
              \<and> (required_args ''delete_pod'' = [k] \<longrightarrow>
                   validation_message ''delete_pod'' = k @ '' is required''))"
proof -
  have d: "call_tool w ''delete_pod'' arguments st =
      (if cluster st = None then not_connected else error_dict ''namespace and pod_name are required'', st)"
    by (simp add: call_tool_def dispatch_missing_delete_pod [OF assms])
  have m: "py_in k ''namespace and pod_name are required'' \<and> py_in ''required'' ''namespace and pod_name are required''"
    using assms(1) by (auto simp add: starts_with_def)
  show ?thesis
    using m assms(1)
    by (auto simp add: d required_args_delete_pod validation_message_delete_pod cluster_tool_delete_pod
        is_error_def error_dict_def not_connected_def)
qed

lemma dispatch_missing_create_namespace:
  assumes "k \<in> set [''name'']" and "map_of arguments k = None"
  shows "dispatch w ''create_namespace'' arguments st =
     (Inr (if cluster st = None then not_connected
           else error_dict ''name is required''), st)"
  using assms
  by (auto simp add: dispatch_def handle_create_namespace_def dict_get_missing Let_def
      split: option.splits)

lemma required_args_create_namespace: "required_args ''create_namespace'' = [''name'']"
  by (simp add: required_args_def tool_specs_def)

lemma validation_message_create_namespace: "validation_message ''create_namespace'' = ''name is required''"
  by (simp add: validation_message_def)

lemma cluster_tool_create_namespace: "(''create_namespace'' \<in> set cluster_tools) = True"
  by (simp add: cluster_tools_def)

lemma missing_argument_create_namespace:
  assumes "k \<in> set [''name'']" and "map_of arguments k = None"
  shows "snd (call_tool w ''create_namespace'' arguments st) = st
         \<and> is_error (fst (call_tool w ''create_namespace'' arguments st))
         \<and> (cluster st \<noteq> None \<or> ''create_namespace'' \<notin> set cluster_tools \<longrightarrow>
              fst (call_tool w ''create_namespace'' arguments st)
                = error_dict (validation_message ''create_namespace'')
              \<and> py_in k (validation_message ''create_namespace'')
              \<and> py_in ''required'' (validation_message ''create_namespace'')
              \<and> (required_args ''create_namespace'' = [k] \<longrightarrow>
                   validation_message ''create_namespace'' = k @ '' is required''))"
proof -
  have d: "call_tool w ''create_namespace'' arguments st =
      (if cluster st = None then not_connected else error_dict ''name is required'', st)"
    by (simp add: call_tool_def dispatch_missing_create_namespace [OF assms])
  have m: "py_in k ''name is required'' \<and> py_in ''required'' ''name is required''"
    using assms(1) by (auto simp add: starts_with_def)
  show ?thesis
    using m assms(1)
    by (auto simp add: d required_args_create_namespace validation_message_create_namespace cluster_tool_create_namespace
        is_error_def error_dict_def not_connected_def)
qed

lemma dispatch_missing_delete_namespace:
  assumes "k \<in> set [''name'']" and "map_of arguments k = None"
  shows "dispatch w ''delete_namespace'' arguments st =
     (Inr (if cluster st = None then not_connected
           else error_dict ''name is required''), st)"
  using assms
  by (auto simp add: dispatch_def handle_delete_namespace_def dict_get_missing Let_def
      split: option.splits)

lemma required_args_delete_namespace: "required_args ''delete_namespace'' = [''name'']"
  by (simp add: required_args_def tool_specs_def)

lemma validation_message_delete_namespace: "validation_message ''delete_namespace'' = ''name is required''"
  by (simp add: validation_message_def)

lemma cluster_tool_delete_namespace: "(''delete_namespace'' \<in> set cluster_tools) = True"
  by (simp add: cluster_tools_def)

lemma missing_argument_delete_namespace:
  assumes "k \<in> set [''name'']" and "map_of arguments k = None"
  shows "snd (call_tool w ''delete_namespace'' arguments st) = st
         \<and> is_error (fst (call_tool w ''delete_namespace'' arguments st))
         \<and> (cluster st \<noteq> None \<or> ''delete_namespace'' \<notin> set cluster_tools \<longrightarrow>
              fst (call_tool w ''delete_namespace'' arguments st)
                = error_dict (validation_message ''delete_namespace'')
              \<and> py_in k (validation_message ''delete_namespace'')
              \<and> py_in ''required'' (validation_message ''delete_namespace'')
              \<and> (required_args ''delete_namespace'' = [k] \<longrightarrow>
                   validation_message ''delete_namespace'' = k @ '' is required''))"
proof -
  have d: "call_tool w ''delete_namespace'' arguments st =
      (if cluster st = None then not_connected else error_dict ''name is required'', st)"
    by (simp add: call_tool_def dispatch_missing_delete_namespace [OF assms])
  have m: "py_in k ''name is required'' \<and> py_in ''required'' ''name is required''"
    using assms(1) by (auto simp add: starts_with_def)
  show ?thesis
    using m assms(1)
    by (auto simp add: d required_args_delete_namespace validation_message_delete_namespace cluster_tool_delete_namespace
        is_error_def error_dict_def not_connected_def)
qed

lemma dispatch_missing_ask_llm:
  assumes "k \<in> set [''question'']" and "map_of arguments k = None"
  shows "dispatch w ''ask_llm'' arguments st =
     (Inr (error_dict ''question is required''), st)"
  using assms
  by (auto simp add: dispatch_def handle_ask_llm_def dict_get_missing Let_def
      split: option.splits)

lemma required_args_ask_llm: "required_args ''ask_llm'' = [''question'']"
  by (simp add: required_args_def tool_specs_def)

lemma validation_message_ask_llm: "validation_message ''ask_llm'' = ''question is required''"
  by (simp add: validation_message_def)

lemma cluster_tool_ask_llm: "(''ask_llm'' \<in> set cluster_tools) = False"
  by (simp add: cluster_tools_def)

lemma missing_argument_ask_llm:
  assumes "k \<in> set [''question'']" and "map_of arguments k = None"
  shows "snd (call_tool w ''ask_llm'' arguments st) = st
         \<and> is_error (fst (call_tool w ''ask_llm'' arguments st))
         \<and> (cluster st \<noteq> None \<or> ''ask_llm'' \<notin> set cluster_tools \<longrightarrow>
              fst (call_tool w ''ask_llm'' arguments st)
                = error_dict (validation_message ''ask_llm'')
              \<and> py_in k (validation_message ''ask_llm'')
              \<and> py_in ''required'' (validation_message ''ask_llm'')
              \<and> (required_args ''ask_llm'' = [k] \<longrightarrow>
                   validation_message ''ask_llm'' = k @ '' is required''))"
proof -
  have d: "call_tool w ''ask_llm'' arguments st =
      (error_dict ''question is required'', st)"
    by (simp add: call_tool_def dispatch_missing_ask_llm [OF assms])
  have m: "py_in k ''question is required'' \<and> py_in ''required'' ''question is required''"
    using assms(1) by (auto simp add: starts_with_def)
  show ?thesis
    using m assms(1)
    by (auto simp add: d required_args_ask_llm validation_message_ask_llm cluster_tool_ask_llm
        is_error_def error_dict_def not_connected_def)
qed

lemma dispatch_missing_get_troubleshooting_help:
  assumes "k \<in> set [''issue_description'']" and "map_of arguments k = None"
  shows "dispatch w ''get_troubleshooting_help'' arguments st =
     (Inr (error_dict ''issue_description is required''), st)"
  using assms
  by (auto simp add: dispatch_def handle_get_troubleshooting_help_def dict_get_missing Let_def
      split: option.splits)

lemma required_args_get_troubleshooting_help: "required_args ''get_troubleshooting_help'' = [''issue_description'']"
  by (simp add: required_args_def tool_specs_def)

lemma validation_message_get_troubleshooting_help: "validation_message ''get_troubleshooting_help'' = ''issue_description is required''"
  by (simp add: validation_message_def)

lemma cluster_tool_get_troubleshooting_help: "(''get_troubleshooting_help'' \<in> set cluster_tools) = False"
  by (simp add: cluster_tools_def)

lemma missing_argument_get_troubleshooting_help:
  assumes "k \<in> set [''issue_description'']" and "map_of arguments k = None"
  shows "snd (call_tool w ''get_troubleshooting_help'' arguments st) = st
         \<and> is_error (fst (call_tool w ''get_troubleshooting_help'' arguments st))
         \<and> (cluster st \<noteq> None \<or> ''get_troubleshooting_help'' \<notin> set cluster_tools \<longrightarrow>
              fst (call_tool w ''get_troubleshooting_help'' arguments st)
                = error_dict (validation_message ''get_troubleshooting_help'')
              \<and> py_in k (validation_message ''get_troubleshooting_help'')
              \<and> py_in ''required'' (validation_message ''get_troubleshooting_help'')
              \<and> (required_args ''get_troubleshooting_help'' = [k] \<longrightarrow>
                   validation_message ''get_troubleshooting_help'' = k @ '' is required''))"
proof -
  have d: "call_tool w ''get_troubleshooting_help'' arguments st =
      (error_dict ''issue_description is required'', st)"
    by (simp add: call_tool_def dispatch_missing_get_troubleshooting_help [OF assms])
  have m: "py_in k ''issue_description is required'' \<and> py_in ''required'' ''issue_description is required''"
    using assms(1) by (auto simp add: starts_with_def)
  show ?thesis
    using m assms(1)
    by (auto simp add: d required_args_get_troubleshooting_help validation_message_get_troubleshooting_help cluster_tool_get_troubleshooting_help
        is_error_def error_dict_def not_connected_def)
qed

text \<open>
  C3, as the code has it. When a key of a tool's \<^verbatim>\<open>required\<close> list is absent from
  the arguments, the invocation answers an error and changes nothing: no gateway
  method is called, no LLM request is sent, the handle stays. If the tool needs no
  cluster, or a cluster is connected, the error is the tool's validation text: it
  contains the key and the word "required", and it is "<key> is required" when the key
  is the tool's only required one.
\<close>

theorem missing_argument_error:
  assumes "k \<in> set (required_args name)" and "map_of arguments k = None"
  shows "snd (call_tool w name arguments st) = st
         \<and> is_error (fst (call_tool w name arguments st))
         \<and> (cluster st \<noteq> None \<or> name \<notin> set cluster_tools \<longrightarrow>
              fst (call_tool w name arguments st)
                = error_dict (validation_message name)
              \<and> py_in k (validation_message name)
              \<and> py_in ''required'' (validation_message name)
              \<and> (required_args name = [k] \<longrightarrow>
                   validation_message name = k @ '' is required''))"
proof -
  from assms(1) obtain r where mr: "map_of tool_specs name = Some r" and kr: "k \<in> set r"
    by (cases "map_of tool_specs name") (auto simp add: required_args_def)
  from mr have "(name, r) \<in> set tool_specs"
    by (rule map_of_SomeD)
  then have "(name = ''connect_cluster'' \<and> r = [''cluster_url'', ''token''])
      \<or> (name = ''list_namespaces'' \<and> r = [])
      \<or> (name = ''list_applications'' \<and> r = [''namespace''])
      \<or> (name = ''list_pods'' \<and> r = [''namespace''])
      \<or> (name = ''list_services'' \<and> r = [''namespace''])
      \<or> (name = ''list_routes'' \<and> r = [''namespace''])
      \<or> (name = ''list_configmaps'' \<and> r = [''namespace''])
      \<or> (name = ''list_secrets'' \<and> r = [''namespace''])
      \<or> (name = ''get_pod_logs'' \<and> r = [''namespace'', ''pod_name''])
      \<or> (name = ''get_resource_usage'' \<and> r = [''namespace''])
      \<or> (name = ''scale_deployment'' \<and> r = [''namespace'', ''deployment_name'', ''replicas''])
      \<or> (name = ''delete_pod'' \<and> r = [''namespace'', ''pod_name''])
      \<or> (name = ''create_namespace'' \<and> r = [''name''])
      \<or> (name = ''delete_namespace'' \<and> r = [''name''])
      \<or> (name = ''ask_llm'' \<and> r = [''question''])
      \<or> (name = ''get_llm_providers'' \<and> r = [])
      \<or> (name = ''test_llm_connection'' \<and> r = [])
      \<or> (name = ''intelligent_cluster_analysis'' \<and> r = [])
      \<or> (name = ''get_troubleshooting_help'' \<and> r = [''issue_description''])"
    by (simp add: tool_specs_def)
  then show ?thesis
  proof (elim disjE conjE)
  assume n: "name = ''connect_cluster''" and r: "r = [''cluster_url'', ''token'']"
  from kr r have "k \<in> set [''cluster_url'', ''token'']" by simp
  from missing_argument_connect_cluster [OF this assms(2)] show ?thesis unfolding n .
  next
  assume "name = ''list_namespaces''" and r: "r = []"
  from kr r show ?thesis by simp
  next
  assume n: "name = ''list_applications''" and r: "r = [''namespace'']"
  from kr r have "k \<in> set [''namespace'']" by simp
  from missing_argument_list_applications [OF this assms(2)] show ?thesis unfolding n .
  next
  assume n: "name = ''list_pods''" and r: "r = [''namespace'']"
  from kr r have "k \<in> set [''namespace'']" by simp
  from missing_argument_list_pods [OF this assms(2)] show ?thesis unfolding n .
  next
  assume n: "name = ''list_services''" and r: "r = [''namespace'']"
  from kr r have "k \<in> set [''namespace'']" by simp
  from missing_argument_list_services [OF this assms(2)] show ?thesis unfolding n .
  next
  assume n: "name = ''list_routes''" and r: "r = [''namespace'']"
  from kr r have "k \<in> set [''namespace'']" by simp
  from missing_argument_list_routes [OF this assms(2)] show ?thesis unfolding n .
  next
  assume n: "name = ''list_configmaps''" and r: "r = [''namespace'']"
  from kr r have "k \<in> set [''namespace'']" by simp
  from missing_argument_list_configmaps [OF this assms(2)] show ?thesis unfolding n .
  next
  assume n: "name = ''list_secrets''" and r: "r = [''namespace'']"
  from kr r have "k \<in> set [''namespace'']" by simp
  from missing_argument_list_secrets [OF this assms(2)] show ?thesis unfolding n .
  next
  assume n: "name = ''get_pod_logs''" and r: "r = [''namespace'', ''pod_name'']"
  from kr r have "k \<in> set [''namespace'', ''pod_name'']" by simp
  from missing_argument_get_pod_logs [OF this assms(2)] show ?thesis unfolding n .
  next
  assume n: "name = ''get_resource_usage''" and r: "r = [''namespace'']"
  from kr r have "k \<in> set [''namespace'']" by simp
  from missing_argument_get_resource_usage [OF this assms(2)] show ?thesis unfolding n .
  next
  assume n: "name = ''scale_deployment''" and r: "r = [''namespace'', ''deployment_name'', ''replicas'']"
  from kr r have "k \<in> set [''namespace'', ''deployment_name'', ''replicas'']" by simp
  from missing_argument_scale_deployment [OF this assms(2)] show ?thesis unfolding n .
  next
  assume n: "name = ''delete_pod''" and r: "r = [''namespace'', ''pod_name'']"
  from kr r have "k \<in> set [''namespace'', ''pod_name'']" by simp
  from missing_argument_delete_pod [OF this assms(2)] show ?thesis unfolding n .
  next
  assume n: "name = ''create_namespace''" and r: "r = [''name'']"
  from kr r have "k \<in> set [''name'']" by simp
  from missing_argument_create_namespace [OF this assms(2)] show ?thesis unfolding n .
  next
  assume n: "name = ''delete_namespace''" and r: "r = [''name'']"
  from kr r have "k \<in> set [''name'']" by simp
  from missing_argument_delete_namespace [OF this assms(2)] show ?thesis unfolding n .
  next
  assume n: "name = ''ask_llm''" and r: "r = [''question'']"
  from kr r have "k \<in> set [''question'']" by simp
  from missing_argument_ask_llm [OF this assms(2)] show ?thesis unfolding n .
  next
  assume "name = ''get_llm_providers''" and r: "r = []"
  from kr r show ?thesis by simp
  next
  assume "name = ''test_llm_connection''" and r: "r = []"
  from kr r show ?thesis by simp
  next
  assume "name = ''intelligent_cluster_analysis''" and r: "r = []"
  from kr r show ?thesis by simp
  next
  assume n: "name = ''get_troubleshooting_help''" and r: "r = [''issue_description'']"
  from kr r have "k \<in> set [''issue_description'']" by simp
  from missing_argument_get_troubleshooting_help [OF this assms(2)] show ?thesis unfolding n .
  qed
qed

theorem missing_argument_error_witness:
  "''namespace'' \<in> set (required_args ''list_pods'')
   \<and> map_of [(''pod_name'', PStr ''web-1'')] ''namespace'' = None
   \<and> cluster connected_state \<noteq> None
   \<and> call_tool quiet_world ''list_pods'' [(''pod_name'', PStr ''web-1'')] connected_state =
       (error_dict ''namespace is required'', connected_state)"
proof -
  have h1: "''namespace'' \<in> set (required_args ''list_pods'')"
    by (simp add: required_args_list_pods)
  have h2: "map_of [(''pod_name'', PStr ''web-1'')] ''namespace'' = None"
    by simp
  have h3: "cluster connected_state \<noteq> None"
    by (simp add: connected_state_def)
  from missing_argument_error [OF h1 h2, of quiet_world connected_state] h3
  have "snd (call_tool quiet_world ''list_pods'' [(''pod_name'', PStr ''web-1'')]
               connected_state) = connected_state
        \<and> fst (call_tool quiet_world ''list_pods'' [(''pod_name'', PStr ''web-1'')]
               connected_state) = error_dict ''namespace is required''"
    by (simp add: validation_message_list_pods)
  then have "call_tool quiet_world ''list_pods'' [(''pod_name'', PStr ''web-1'')]
      connected_state = (error_dict ''namespace is required'', connected_state)"
    by (simp add: prod_eq_iff)
  with h1 h2 h3 show ?thesis by blast
qed

text \<open>
  Without a handle, \<open>list_pods\<close> with no arguments answers the connection error,
  which does not mention the missing key \<open>namespace\<close>.
\<close>

theorem missing_argument_not_connected:
  "call_tool quiet_world ''list_pods'' [] initial_state =
     (error_dict ''Not connected to cluster. Use connect_cluster first.'', initial_state)
   \<and> \<not> py_in ''namespace'' ''Not connected to cluster. Use connect_cluster first.''"
  by (simp add: call_tool_def dispatch_def handle_list_pods_def handle_namespaced_def
      initial_state_def not_connected_def starts_with_def)


end
